theory Spec2Isabelle
  imports Complex_Main
begin

section \<open>here\_xyz.py: uploading activity geometries to a HERE interactive map layer\<close>

subsection \<open>Module constants\<close>

definition HERE_CATALOG_ID :: string where
  "HERE_CATALOG_ID = ''strava-analysis-tool''"

definition HERE_LAYER_ID :: string where
  "HERE_LAYER_ID = ''strava-activity-data''"

definition HERE_FEATURE_IDS_CHUNK_SIZE :: nat where
  "HERE_FEATURE_IDS_CHUNK_SIZE = 100"

subsection \<open>Python list primitives used by the chunking expression\<close>

text \<open>
  \<^verbatim>\<open>range(start, stop, step)\<close> for a positive step: the values
  \<open>start, start + step, ...\<close> below \<open>stop\<close>. Their number is
  \<open>(stop - start + step - 1) div step\<close>, which is 0 when \<open>stop \<le> start\<close>
  (subtraction on \<open>nat\<close> stops at 0).
\<close>

definition py_range :: "nat \<Rightarrow> nat \<Rightarrow> nat \<Rightarrow> nat list" where
  "py_range start stop step =
     map (\<lambda>k. start + k * step) [0 ..< (stop - start + step - 1) div step]"

text \<open>
  The slice \<^verbatim>\<open>xs[i:j]\<close> for \<open>0 \<le> i \<le> j\<close>. Python clips both ends to the
  length of the list and never raises; \<open>take\<close> and \<open>drop\<close> clip in the same way.
\<close>

definition py_slice :: "nat \<Rightarrow> nat \<Rightarrow> 'a list \<Rightarrow> 'a list" where
  "py_slice i j xs = take (j - i) (drop i xs)"

text \<open>
  Lines 114--115:
  \<^verbatim>\<open>[feature_ids[i:i + HERE_FEATURE_IDS_CHUNK_SIZE] for i in
     range(0, len(feature_ids), HERE_FEATURE_IDS_CHUNK_SIZE)]\<close>
\<close>

definition feature_ids_chunks :: "'a list \<Rightarrow> 'a list list" where
  "feature_ids_chunks feature_ids =
     map (\<lambda>i. py_slice i (i + HERE_FEATURE_IDS_CHUNK_SIZE) feature_ids)
         (py_range 0 (length feature_ids) HERE_FEATURE_IDS_CHUNK_SIZE)"

subsection \<open>Python values\<close>

text \<open>
  An instance of \<^verbatim>\<open>Exception\<close>, the class both handlers of \<^verbatim>\<open>_get_here_iml\<close>
  catch: its class name and the text \<^verbatim>\<open>str(error)\<close>.
\<close>

datatype exn = Exn (cls: string) (msg: string)

text \<open>
  The values \<^verbatim>\<open>geojson.load\<close> can return, and the keyword arguments and dictionaries the
  module builds. A dictionary is the list of its items in insertion order; the GeoJSON
  objects of the \<^verbatim>\<open>geojson\<close> package are dictionaries too (the module itself reads a
  feature collection with \<^verbatim>\<open>feature_collection['features']\<close> and a feature with
  \<^verbatim>\<open>feature['id']\<close>, lines 111--112). A float is kept as the real number it stands for;
  only its test against zero is used.
\<close>

datatype pyval =
    PNone
  | PBool bool
  | PInt int
  | PFloat real
  | PStr string
  | PList "pyval list"
  | PDict "(string \<times> pyval) list"

text \<open>The truth value Python gives a value in \<^verbatim>\<open>if geo_data:\<close> (line 128).\<close>

fun truthy :: "pyval \<Rightarrow> bool" where
  "truthy PNone = False"
| "truthy (PBool b) = b"
| "truthy (PInt i) = (i \<noteq> 0)"
| "truthy (PFloat x) = (x \<noteq> 0)"
| "truthy (PStr s) = (s \<noteq> [])"
| "truthy (PList xs) = (xs \<noteq> [])"
| "truthy (PDict items) = (items \<noteq> [])"

text \<open>
  A feature of the remote layer as the purge uses it: its identifier
  (\<^verbatim>\<open>feature['id']\<close>) and the rest of its content.
\<close>

datatype feature = Feature (fid: string) (geometry: pyval) (properties: pyval)

text \<open>A feature and a feature collection as GeoJSON objects.\<close>

definition feature_json :: "feature \<Rightarrow> pyval" where
  "feature_json f =
     PDict [(''type'', PStr ''Feature''), (''id'', PStr (fid f)),
            (''geometry'', geometry f), (''properties'', properties f)]"

definition feature_collection :: "pyval list \<Rightarrow> pyval" where
  "feature_collection features =
     PDict [(''type'', PStr ''FeatureCollection''), (''features'', PList features)]"

subsection \<open>The outside world\<close>

datatype credentials = Credentials string

datatype iml = IML (catalog_hrn: string) (layer_id: string)

text \<open>
  The calls the module makes to the \<^verbatim>\<open>xyzspaces\<close> and \<^verbatim>\<open>geojson\<close> packages and to the
  file system are parameters of the model. \<open>'r\<close> is the state of the remote platform;
  a call that can change it returns the new state, also when it raises.

  \<^item> \<open>from_credentials_file\<close>: \<^verbatim>\<open>Credentials.from_credentials_file(path)\<close>;
  \<^item> \<open>from_catalog_hrn_and_layer_id\<close>: \<^verbatim>\<open>IML.from_catalog_hrn_and_layer_id(...)\<close>,
    given its keyword arguments (the credentials apart);
  \<^item> \<open>iml_new\<close>: \<^verbatim>\<open>IML.new(...)\<close>, given its keyword arguments;
  \<^item> \<open>search_features\<close>: \<^verbatim>\<open>iml.layer.search_features(params=...).to_geojson()\<close>, the
    features of the collection it returns;
  \<^item> \<open>delete_features\<close>: \<^verbatim>\<open>iml.layer.delete_features(chunk)\<close>;
  \<^item> \<open>write_features\<close>: \<^verbatim>\<open>iml.layer.write_features(features=geo_data)\<close>;
  \<^item> \<open>files\<close>: the text of each file that exists, by path;
  \<^item> \<open>geojson_load\<close>: \<^verbatim>\<open>geojson.load\<close> on the text of the opened file.
\<close>

record 'r world =
  from_credentials_file :: "string \<Rightarrow> exn + credentials"
  from_catalog_hrn_and_layer_id ::
    "(string \<times> pyval) list \<Rightarrow> credentials \<Rightarrow> 'r \<Rightarrow> exn + iml"
  iml_new :: "(string \<times> pyval) list \<Rightarrow> credentials \<Rightarrow> 'r \<Rightarrow> (exn + iml) \<times> 'r"
  search_features :: "iml \<Rightarrow> pyval \<Rightarrow> 'r \<Rightarrow> exn + feature list"
  delete_features :: "iml \<Rightarrow> string list \<Rightarrow> 'r \<Rightarrow> exn option \<times> 'r"
  write_features :: "iml \<Rightarrow> pyval \<Rightarrow> 'r \<Rightarrow> exn option \<times> 'r"
  files :: "string \<rightharpoonup> string"
  geojson_load :: "string \<Rightarrow> exn + pyval"

text \<open>
  What a run does, in order. A delete and a write record what the call raised, if
  anything.
\<close>

datatype event =
    LoadCredentials string
  | Print string
  | Lookup "(string \<times> pyval) list"
  | New "(string \<times> pyval) list"
  | Search iml pyval
  | Delete iml "string list" "exn option"
  | OpenFile string
  | Load
  | Write iml pyval "exn option"

text \<open>
  How a call ends: it returns, an exception leaves it, or \<^verbatim>\<open>sys.exit(message)\<close> ends
  the process.
\<close>

datatype 'a outcome = Returned 'a | Raised exn | Exited string

datatype ('a, 'r) run = Run (outcome: "'a outcome") (trace: "event list") (remote: 'r)

text \<open>One statement after another: the second runs only when the first returns.\<close>

definition then_run ::
  "('a, 'r) run \<Rightarrow> ('a \<Rightarrow> 'r \<Rightarrow> ('b, 'r) run) \<Rightarrow> ('b, 'r) run" where
  "then_run m f =
     (case m of
        Run (Returned a) t r \<Rightarrow> (case f a r of Run out t' r' \<Rightarrow> Run out (t @ t') r')
      | Run (Raised error) t r \<Rightarrow> Run (Raised error) t r
      | Run (Exited message) t r \<Rightarrow> Run (Exited message) t r)"

subsection \<open>Messages and arguments\<close>

definition quoted :: "string \<Rightarrow> string" where
  "quoted s = [CHR 0x27] @ s @ [CHR 0x27]"

definition msg_locating :: string where
  "msg_locating =
     ''[HERE] Locating the HERE interactive map layer for Strava Analysis Tool''"

definition msg_found :: string where
  "msg_found =
     ''[HERE] Found an existing HERE interactive map layer with ID ''
     @ quoted HERE_LAYER_ID"

definition msg_not_found :: string where
  "msg_not_found =
     ''[HERE] No existing HERE interactive map layer found. Creating a ''
     @ ''new catalog and IML for Strava Analysis Tool.''"

definition msg_created :: string where
  "msg_created =
     ''[HERE] Created a new catalog with ID '' @ quoted HERE_CATALOG_ID
     @ '' and interactive map layer with ID '' @ quoted HERE_LAYER_ID"

definition msg_exit :: "exn \<Rightarrow> string" where
  "msg_exit error = ''[ERROR]: HERE returned the following error: '' @ msg error"

definition msg_deleting :: string where
  "msg_deleting =
     ''[HERE] Deleting all existing activities from the HERE interactive map layer''"

definition msg_uploading :: "string \<Rightarrow> string" where
  "msg_uploading geo_data_file_path =
     ''[HERE] Uploading activities from '' @ quoted geo_data_file_path
     @ '' to the HERE interactive map layer''"

definition lookup_kwargs :: "(string \<times> pyval) list" where
  "lookup_kwargs =
     [(''catalog_hrn'', PStr (''hrn:here:data:::'' @ HERE_CATALOG_ID)),
      (''layer_id'', PStr HERE_LAYER_ID)]"

definition layer_details :: pyval where
  "layer_details =
     PDict [(''id'', PStr HERE_LAYER_ID),
            (''name'', PStr ''Strava Activity Data''),
            (''summary'', PStr ''Strava Activity Data''),
            (''description'', PStr ''Strava data collected by Strava Analysis Tool''),
            (''layerType'', PStr ''interactivemap''),
            (''interactiveMapProperties'', PDict [])]"

definition new_kwargs :: "(string \<times> pyval) list" where
  "new_kwargs =
     [(''catalog_id'', PStr HERE_CATALOG_ID),
      (''catalog_name'', PStr ''Strava Analysis Tool''),
      (''catalog_summary'', PStr ''Strava Analysis Tool''),
      (''catalog_description'', PStr ''Strava data collected by Strava Analysis Tool''),
      (''layer_details'', layer_details)]"

definition search_params :: pyval where
  "search_params = PDict [(''id=gte'', PStr ''0'')]"

text \<open>
  \<^verbatim>\<open>repr\<close> of a string of ASCII characters, as Python prints a file name in the text of
  an \<^verbatim>\<open>OSError\<close>: in single quotes, or in double quotes when the string holds a single
  quote and no double quote; the backslash and the enclosing quote are escaped, and so
  are the control characters.
\<close>

definition hex_digit :: "nat \<Rightarrow> char" where
  "hex_digit d = ''0123456789abcdef'' ! d"

definition py_repr_char :: "char \<Rightarrow> char \<Rightarrow> string" where
  "py_repr_char q c =
     (if c = CHR 0x5C then [CHR 0x5C, CHR 0x5C]
      else if c = q then [CHR 0x5C, q]
      else if c = CHR 0x0A then [CHR 0x5C, CHR ''n'']
      else if c = CHR 0x0D then [CHR 0x5C, CHR ''r'']
      else if c = CHR 0x09 then [CHR 0x5C, CHR ''t'']
      else if (of_char c :: nat) < 32 \<or> (of_char c :: nat) = 127 then
        [CHR 0x5C, CHR ''x'', hex_digit ((of_char c :: nat) div 16),
         hex_digit ((of_char c :: nat) mod 16)]
      else [c])"

definition py_repr :: "string \<Rightarrow> string" where
  "py_repr s =
     (let q = (if CHR 0x27 \<in> set s \<and> CHR 0x22 \<notin> set s then CHR 0x22 else CHR 0x27)
      in [q] @ concat (map (py_repr_char q) s) @ [q])"

text \<open>What \<^verbatim>\<open>open\<close> raises for a path with no file.\<close>

definition file_not_found :: "string \<Rightarrow> exn" where
  "file_not_found path =
     Exn ''FileNotFoundError'' (''[Errno 2] No such file or directory: '' @ py_repr path)"

subsection \<open>\<^verbatim>\<open>_get_here_iml\<close> (lines 27--83)\<close>

definition get_here_iml :: "'r world \<Rightarrow> string \<Rightarrow> 'r \<Rightarrow> (iml, 'r) run" where
  "get_here_iml w here_creds_file_path r =
     (case from_credentials_file w here_creds_file_path of
        Inl error \<Rightarrow> Run (Raised error) [LoadCredentials here_creds_file_path] r
      | Inr credentials \<Rightarrow>
          (case from_catalog_hrn_and_layer_id w lookup_kwargs credentials r of
             Inr iml \<Rightarrow>
               Run (Returned iml)
                 [LoadCredentials here_creds_file_path, Print msg_locating,
                  Lookup lookup_kwargs, Print msg_found] r
           | Inl error \<Rightarrow>
               (case iml_new w new_kwargs credentials r of
                  (Inr iml, r') \<Rightarrow>
                    Run (Returned iml)
                      [LoadCredentials here_creds_file_path, Print msg_locating,
                       Lookup lookup_kwargs, Print msg_not_found, New new_kwargs,
                       Print msg_created] r'
                | (Inl error, r') \<Rightarrow>
                    Run (Exited (msg_exit error))
                      [LoadCredentials here_creds_file_path, Print msg_locating,
                       Lookup lookup_kwargs, Print msg_not_found, New new_kwargs] r')))"

subsection \<open>\<^verbatim>\<open>upload_geo_data\<close> (lines 86--133)\<close>

text \<open>The loop of lines 120--122: it stops at the first delete that raises.\<close>

fun delete_chunks :: "'r world \<Rightarrow> iml \<Rightarrow> string list list \<Rightarrow> 'r \<Rightarrow> (unit, 'r) run" where
  "delete_chunks w iml [] r = Run (Returned ()) [] r"
| "delete_chunks w iml (chunk # chunks) r =
     (case delete_features w iml chunk r of
        (Some error, r') \<Rightarrow> Run (Raised error) [Delete iml chunk (Some error)] r'
      | (None, r') \<Rightarrow>
          (case delete_chunks w iml chunks r' of
             Run out t r'' \<Rightarrow> Run out (Delete iml chunk None # t) r''))"

text \<open>The body of \<^verbatim>\<open>if refresh:\<close> (lines 105--122).\<close>

definition refresh_layer :: "'r world \<Rightarrow> iml \<Rightarrow> 'r \<Rightarrow> (unit, 'r) run" where
  "refresh_layer w iml r =
     (case search_features w iml search_params r of
        Inl error \<Rightarrow> Run (Raised error) [Search iml search_params] r
      | Inr features \<Rightarrow>
          (let feature_ids = map fid features in
           then_run (Run (Returned ()) [Search iml search_params, Print msg_deleting] r)
             (\<lambda>_. delete_chunks w iml (feature_ids_chunks feature_ids))))"

text \<open>
  The \<^verbatim>\<open>with\<close> block (lines 124--133). Nothing here catches an exception: one raised
  by \<^verbatim>\<open>open\<close>, by \<^verbatim>\<open>geojson.load\<close> or by \<^verbatim>\<open>write_features\<close> leaves the function.
\<close>

definition upload_file :: "'r world \<Rightarrow> iml \<Rightarrow> string \<Rightarrow> 'r \<Rightarrow> (unit, 'r) run" where
  "upload_file w iml geo_data_file_path r =
     (case files w geo_data_file_path of
        None \<Rightarrow>
          Run (Raised (file_not_found geo_data_file_path)) [OpenFile geo_data_file_path] r
      | Some text \<Rightarrow>
          (case geojson_load w text of
             Inl error \<Rightarrow> Run (Raised error) [OpenFile geo_data_file_path, Load] r
           | Inr geo_data \<Rightarrow>
               if truthy geo_data then
                 (case write_features w iml geo_data r of
                    (result, r') \<Rightarrow>
                      Run (case result of None \<Rightarrow> Returned () | Some error \<Rightarrow> Raised error)
                        [OpenFile geo_data_file_path, Load,
                         Print (msg_uploading geo_data_file_path),
                         Write iml geo_data result] r')
               else Run (Returned ()) [OpenFile geo_data_file_path, Load] r))"

definition upload_geo_data ::
  "'r world \<Rightarrow> string \<Rightarrow> string \<Rightarrow> bool \<Rightarrow> 'r \<Rightarrow> (unit, 'r) run" where
  "upload_geo_data w geo_data_file_path here_creds_file_path refresh r =
     then_run (get_here_iml w here_creds_file_path r) (\<lambda>iml r1.
       then_run (if refresh then refresh_layer w iml r1 else Run (Returned ()) [] r1)
         (\<lambda>_. upload_file w iml geo_data_file_path))"

subsection \<open>Reading a trace\<close>

fun delete_calls :: "event list \<Rightarrow> string list list" where
  "delete_calls [] = []"
| "delete_calls (Delete iml chunk result # t) = chunk # delete_calls t"
| "delete_calls (e # t) = delete_calls t"

fun write_calls :: "event list \<Rightarrow> pyval list" where
  "write_calls [] = []"
| "write_calls (Write iml geo_data result # t) = geo_data # write_calls t"
| "write_calls (e # t) = write_calls t"

fun search_calls :: "event list \<Rightarrow> pyval list" where
  "search_calls [] = []"
| "search_calls (Search iml params # t) = params # search_calls t"
| "search_calls (e # t) = search_calls t"

fun new_calls :: "event list \<Rightarrow> (string \<times> pyval) list list" where
  "new_calls [] = []"
| "new_calls (New kwargs # t) = kwargs # new_calls t"
| "new_calls (e # t) = new_calls t"

fun prints :: "event list \<Rightarrow> string list" where
  "prints [] = []"
| "prints (Print message # t) = message # prints t"
| "prints (e # t) = prints t"

fun is_open :: "event \<Rightarrow> bool" where
  "is_open (OpenFile path) = True"
| "is_open e = False"

fun is_write :: "event \<Rightarrow> bool" where
  "is_write (Write iml geo_data result) = True"
| "is_write e = False"

fun is_delete :: "event \<Rightarrow> bool" where
  "is_delete (Delete iml chunk result) = True"
| "is_delete e = False"

text \<open>The events of a trace from the first opening of a file on.\<close>

definition from_open :: "event list \<Rightarrow> event list" where
  "from_open t = dropWhile (\<lambda>e. \<not> is_open e) t"

subsection \<open>A reference layer\<close>

text \<open>
  Modelled from the spec: the behaviour of the remote layer, which is the platform's
  and not this module's. The state is the list of the layer's features.
  \<^verbatim>\<open>search_features\<close> with the catch-all filter \<^verbatim>\<open>id >= "0"\<close> returns all of them
  (``query all remote features matching a catch-all identifier filter''), and
  \<^verbatim>\<open>delete_features\<close> removes exactly the features with the given identifiers.
\<close>

definition layer_search :: "iml \<Rightarrow> pyval \<Rightarrow> feature list \<Rightarrow> exn + feature list" where
  "layer_search iml params layer = Inr layer"

definition layer_delete ::
  "iml \<Rightarrow> string list \<Rightarrow> feature list \<Rightarrow> exn option \<times> feature list" where
  "layer_delete iml chunk layer = (None, filter (\<lambda>f. fid f \<notin> set chunk) layer)"

text \<open>
  Modelled from the spec: \<^verbatim>\<open>write_features\<close> on the reference layer adds the features
  of the uploaded collection to the layer (``uploading the entire collection to the
  remote layer''). A value that is not a feature collection adds nothing.
\<close>

fun feature_of :: "pyval \<Rightarrow> feature option" where
  "feature_of (PDict items) =
     (case map_of items ''id'' of
        Some (PStr i) \<Rightarrow>
          (case (map_of items ''geometry'', map_of items ''properties'') of
             (Some g, Some p) \<Rightarrow> Some (Feature i g p)
           | _ \<Rightarrow> None)
      | _ \<Rightarrow> None)"
| "feature_of v = None"

fun features_of :: "pyval \<Rightarrow> feature list" where
  "features_of (PDict items) =
     (case map_of items ''features'' of
        Some (PList fs) \<Rightarrow> List.map_filter feature_of fs
      | _ \<Rightarrow> [])"
| "features_of v = []"

definition layer_write ::
  "iml \<Rightarrow> pyval \<Rightarrow> feature list \<Rightarrow> exn option \<times> feature list" where
  "layer_write iml geo_data layer = (None, layer @ features_of geo_data)"

subsection \<open>Example worlds\<close>

definition example_iml :: iml where
  "example_iml = IML (''hrn:here:data:::'' @ HERE_CATALOG_ID) HERE_LAYER_ID"

definition point :: "int \<Rightarrow> int \<Rightarrow> pyval" where
  "point x y = PDict [(''type'', PStr ''Point''), (''coordinates'', PList [PInt x, PInt y])]"

definition ride_a :: feature where
  "ride_a = Feature ''7001'' (point 4 52) (PDict [(''name'', PStr ''Morning Ride'')])"

definition ride_b :: feature where
  "ride_b = Feature ''7002'' (point 5 52) (PDict [(''name'', PStr ''Lunch Run'')])"

definition ride_c :: feature where
  "ride_c = Feature ''7003'' (point 5 53) (PDict [(''name'', PStr ''Evening Ride'')])"

definition three_rides_text :: string where
  \<open>three_rides_text =
     ''{"type": "FeatureCollection", "features": [''
     @ ''{"type": "Feature", "id": "7001", "geometry": {"type": "Point", ''
     @ ''"coordinates": [4, 52]}, "properties": {"name": "Morning Ride"}}, ''
     @ ''{"type": "Feature", "id": "7002", "geometry": {"type": "Point", ''
     @ ''"coordinates": [5, 52]}, "properties": {"name": "Lunch Run"}}, ''
     @ ''{"type": "Feature", "id": "7003", "geometry": {"type": "Point", ''
     @ ''"coordinates": [5, 53]}, "properties": {"name": "Evening Ride"}}]}''\<close>

definition no_rides_text :: string where
  \<open>no_rides_text = ''{"type": "FeatureCollection", "features": []}''\<close>

text \<open>
  Four files: a collection of three features, a collection of none, the empty JSON
  object, and an empty file. No file is at any other path.
\<close>

definition example_files :: "string \<rightharpoonup> string" where
  "example_files =
     [''rides.geojson'' \<mapsto> three_rides_text,
      ''no_rides.geojson'' \<mapsto> no_rides_text,
      ''object.geojson'' \<mapsto> ''{}'',
      ''empty.geojson'' \<mapsto> []]"

text \<open>
  \<^verbatim>\<open>geojson.load\<close> on the texts of these files. The empty text is not JSON, and the
  decoder raises on it.
\<close>

definition example_load :: "string \<Rightarrow> exn + pyval" where
  "example_load s =
     (if s = three_rides_text then
        Inr (feature_collection [feature_json ride_a, feature_json ride_b, feature_json ride_c])
      else if s = no_rides_text then Inr (feature_collection [])
      else if s = ''{}'' then Inr (PDict [])
      else Inl (Exn ''JSONDecodeError'' ''Expecting value: line 1 column 1 (char 0)''))"

text \<open>A layer with two features, and one with 250, identified \<open>000\<close> to \<open>249\<close>.\<close>

definition example_layer :: "feature list" where
  "example_layer =
     [Feature ''6001'' (point 4 51) (PDict []), Feature ''6002'' (point 4 50) (PDict [])]"

definition id_of :: "nat \<Rightarrow> string" where
  "id_of k =
     [''0123456789'' ! (k div 100 mod 10), ''0123456789'' ! (k div 10 mod 10),
      ''0123456789'' ! (k mod 10)]"


text \<open>The platform answers every call, and the layer exists.\<close>

definition example_world :: "feature list world" where
  "example_world =
     \<lparr> from_credentials_file = (\<lambda>path. Inr (Credentials path)),
       from_catalog_hrn_and_layer_id = (\<lambda>kwargs c layer. Inr example_iml),
       iml_new = (\<lambda>kwargs c layer. (Inr example_iml, layer)),
       search_features = layer_search,
       delete_features = layer_delete,
       write_features = layer_write,
       files = example_files,
       geojson_load = example_load \<rparr>"

text \<open>The layer does not exist yet, and can be created.\<close>

definition no_layer_world :: "feature list world" where
  "no_layer_world =
     example_world
       \<lparr> from_catalog_hrn_and_layer_id :=
           (\<lambda>kwargs c layer. Inl (Exn ''HTTPError'' ''404 Not Found'')) \<rparr>"

text \<open>The layer is not found, and creating it is refused.\<close>

definition locked_out_world :: "feature list world" where
  "locked_out_world =
     no_layer_world
       \<lparr> iml_new := (\<lambda>kwargs c layer. (Inl (Exn ''HTTPError'' ''403 Forbidden''), layer)) \<rparr>"

text \<open>The delete of the batch that holds identifier \<open>100\<close> fails.\<close>

definition flaky_world :: "feature list world" where
  "flaky_world =
     example_world
       \<lparr> delete_features :=
           (\<lambda>iml chunk layer.
              if id_of 100 \<in> set chunk
              then (Some (Exn ''HTTPError'' ''503 Service Unavailable''), layer)
              else layer_delete iml chunk layer) \<rparr>"

text \<open>The platform refuses every write, and changes nothing.\<close>

definition forbidden :: exn where
  "forbidden = Exn ''HTTPError'' ''403 Forbidden''"

definition read_only_world :: "feature list world" where
  "read_only_world =
     example_world \<lparr> write_features := (\<lambda>iml geo_data layer. (Some forbidden, layer)) \<rparr>"

text \<open>What the resolver does when the lookup finds the layer.\<close>

definition found_trace :: "string \<Rightarrow> event list" where
  "found_trace here_creds_file_path =
     [LoadCredentials here_creds_file_path, Print msg_locating, Lookup lookup_kwargs,
      Print msg_found]"


subsection \<open>Chunking: auxiliary facts\<close>

lemma chunk_count_upper: "(n::nat) \<le> 100 * ((n + 99) div 100)"
  by arith

lemma chunk_count_lower: "100 * (((n::nat) + 99) div 100) < n + 100"
  by arith

lemma last_block:
  fixes N k m :: nat
  assumes lo: "N \<le> 100 * m" and hi: "100 * m < N + 100" and k: "k < m"
  shows "min (N - 100 * k) 100 =
          (if Suc k < m then 100 else if N mod 100 \<noteq> 0 then N mod 100 else 100)"
proof (cases "Suc k < m")
  case True
  then have "100 * (k + 2) \<le> 100 * m" by simp
  with hi have "100 * k + 100 \<le> N" by simp
  with True show ?thesis by simp
next
  case False
  with k have m: "m = Suc k" by simp
  from lo hi have bounds: "100 * k < N" "N \<le> 100 * k + 100" by (simp_all add: m)
  show ?thesis
  proof (cases "N = 100 * k + 100")
    case True
    then show ?thesis using False by simp
  next
    case ne: False
    with bounds have "N - 100 * k < 100" by simp
    moreover have "N = (N - 100 * k) + k * 100" using bounds by simp
    ultimately have "N mod 100 = N - 100 * k"
      by (metis mod_mult_self1 mod_less)
    moreover have "N - 100 * k \<noteq> 0" using bounds by simp
    ultimately show ?thesis using False \<open>N - 100 * k < 100\<close> by simp
  qed
qed

lemma ceiling_chunk_count: "\<lceil>real n / 100\<rceil> = int ((n + 99) div 100)"
proof (rule ceiling_unique)
  have "real (100 * ((n + 99) div 100)) < real (n + 100)"
    using chunk_count_lower[of n] by (simp only: of_nat_less_iff)
  then show "real_of_int (int ((n + 99) div 100)) - 1 < real n / 100" by simp
  have "real n \<le> real (100 * ((n + 99) div 100))"
    using chunk_count_upper[of n] by (simp only: of_nat_le_iff)
  then show "real n / 100 \<le> real_of_int (int ((n + 99) div 100))" by simp
qed

lemma feature_ids_chunks_blocks:
  "feature_ids_chunks xs =
     map (\<lambda>k. take 100 (drop (k * 100) xs)) [0 ..< (length xs + 99) div 100]"
  by (simp add: feature_ids_chunks_def py_range_def py_slice_def
      HERE_FEATURE_IDS_CHUNK_SIZE_def o_def add.commute)

lemma length_feature_ids_chunks:
  "length (feature_ids_chunks xs) = (length xs + 99) div 100"
  by (simp add: feature_ids_chunks_blocks)

lemma nth_feature_ids_chunks:
  assumes "k < length (feature_ids_chunks xs)"
  shows "feature_ids_chunks xs ! k = take 100 (drop (100 * k) xs)"
proof -
  have "k < (length xs + 99) div 100"
    using assms by (simp only: length_feature_ids_chunks)
  then have "feature_ids_chunks xs ! k = take 100 (drop (k * 100) xs)"
    by (simp add: feature_ids_chunks_blocks)
  then show ?thesis by (simp only: mult.commute)
qed

lemma concat_take_drop_blocks:
  "concat (map (\<lambda>k. take n (drop (k * n) xs)) [0 ..< m]) = take (m * n) xs"
proof (induction m)
  case 0
  show ?case by simp
next
  case (Suc m)
  have "Suc m * n = m * n + n" by simp
  then have "take (Suc m * n) xs = take (m * n) xs @ take n (drop (m * n) xs)"
    by (simp only: take_add)
  with Suc show ?case by simp
qed

lemma concat_feature_ids_chunks: "concat (feature_ids_chunks xs) = xs"
proof -
  have "length xs \<le> ((length xs + 99) div 100) * 100"
    using chunk_count_upper[of "length xs"] by (simp only: mult.commute)
  then have "take (((length xs + 99) div 100) * 100) xs = xs"
    by (rule take_all)
  then show ?thesis
    by (simp only: feature_ids_chunks_blocks concat_take_drop_blocks)
qed

lemma length_nth_feature_ids_chunks:
  assumes "k < length (feature_ids_chunks xs)"
  shows "length (feature_ids_chunks xs ! k) =
           (if Suc k < length (feature_ids_chunks xs) then 100
            else if length xs mod 100 \<noteq> 0 then length xs mod 100 else 100)"
proof -
  have k: "k < (length xs + 99) div 100"
    using assms by (simp only: length_feature_ids_chunks)
  have len: "length (feature_ids_chunks xs ! k) = min (length xs - 100 * k) 100"
    using assms by (simp add: nth_feature_ids_chunks)
  show ?thesis
    unfolding len length_feature_ids_chunks
    by (rule last_block [OF chunk_count_upper chunk_count_lower k])
qed

subsection \<open>Runs: auxiliary facts\<close>

lemma then_run_Run [simp]:
  "then_run (Run (Returned a) t r) f =
     Run (outcome (f a r)) (t @ trace (f a r)) (remote (f a r))"
  "then_run (Run (Raised error) t r) f = Run (Raised error) t r"
  "then_run (Run (Exited message) t r) f = Run (Exited message) t r"
  by (simp_all add: then_run_def split: run.splits)

lemma delete_calls_append [simp]:
  "delete_calls (a @ b) = delete_calls a @ delete_calls b"
  by (induction a rule: delete_calls.induct) simp_all

lemma write_calls_append [simp]:
  "write_calls (a @ b) = write_calls a @ write_calls b"
  by (induction a rule: write_calls.induct) simp_all

lemma search_calls_append [simp]:
  "search_calls (a @ b) = search_calls a @ search_calls b"
  by (induction a rule: search_calls.induct) simp_all

lemma get_here_iml_quiet:
  "delete_calls (trace (get_here_iml w cp r)) = []"
  "write_calls (trace (get_here_iml w cp r)) = []"
  "search_calls (trace (get_here_iml w cp r)) = []"
  "\<forall>e \<in> set (trace (get_here_iml w cp r)). \<not> is_open e"
  by (simp_all add: get_here_iml_def split: sum.splits prod.splits)


lemma upload_file_quiet:
  "delete_calls (trace (upload_file w iml gp r)) = []"
  "search_calls (trace (upload_file w iml gp r)) = []"
  by (simp_all add: upload_file_def split: option.splits sum.splits prod.splits)


lemma upload_file_not_exited: "outcome (upload_file w iml gp r) \<noteq> Exited m"
  by (simp add: upload_file_def split: option.splits sum.splits prod.splits)

lemma upload_file_from_open:
  "from_open (trace (upload_file w iml gp r)) = trace (upload_file w iml gp r)"
  by (simp add: from_open_def upload_file_def split: option.splits sum.splits prod.splits)

lemma upload_file_opens: "OpenFile gp \<in> set (trace (upload_file w iml gp r))"
  by (simp add: upload_file_def split: option.splits sum.splits prod.splits)

lemma upload_file_Inr:
  assumes "files w gp = Some text" and "geojson_load w text = Inr geo_data"
  shows "write_calls (trace (upload_file w iml gp r)) = (if truthy geo_data then [geo_data] else [])"
    and "\<not> truthy geo_data \<Longrightarrow> upload_file w iml gp r = Run (Returned ()) [OpenFile gp, Load] r"
  using assms by (simp_all add: upload_file_def split: prod.splits)

lemma upload_file_Inl:
  assumes "files w gp = Some text" and "geojson_load w text = Inl e"
  shows "upload_file w iml gp r = Run (Raised e) [OpenFile gp, Load] r"
  using assms by (simp add: upload_file_def)

lemma upload_file_None:
  assumes "files w gp = None"
  shows "upload_file w iml gp r = Run (Raised (file_not_found gp)) [OpenFile gp] r"
  using assms by (simp add: upload_file_def)

lemma truthy_feature_collection: "truthy (feature_collection features)"
  by (simp add: feature_collection_def)


lemma no_open_member:
  assumes "\<forall>e \<in> set t. \<not> is_open e"
  shows "OpenFile p \<notin> set t"
proof
  assume "OpenFile p \<in> set t"
  with assms have "\<not> is_open (OpenFile p)" by blast
  then show False by simp
qed

lemma delete_calls_no_delete:
  assumes "\<forall>e \<in> set t. \<not> is_delete e"
  shows "delete_calls t = []"
  using assms by (induction t rule: delete_calls.induct) simp_all

lemma from_open_quiet:
  assumes "\<forall>e \<in> set pre. \<not> is_open e"
  shows "from_open (pre @ t) = from_open t" "from_open pre = []"
  using assms by (simp_all add: from_open_def)


lemma delete_chunks_step:
  "delete_chunks w iml (c # cs) r =
     (case delete_features w iml c r of
        (Some error, r') \<Rightarrow> Run (Raised error) [Delete iml c (Some error)] r'
      | (None, r') \<Rightarrow>
          Run (outcome (delete_chunks w iml cs r'))
            (Delete iml c None # trace (delete_chunks w iml cs r'))
            (remote (delete_chunks w iml cs r')))"
  by (simp split: prod.splits option.splits run.splits)

declare delete_chunks.simps(2) [simp del]

lemma delete_chunks_quiet:
  "write_calls (trace (delete_chunks w iml cs r)) = []"
  "search_calls (trace (delete_chunks w iml cs r)) = []"
  "\<forall>e \<in> set (trace (delete_chunks w iml cs r)). \<not> is_open e"
  by (induction cs arbitrary: r; simp add: delete_chunks_step split: prod.splits option.splits)+

lemma delete_chunks_not_exited: "outcome (delete_chunks w iml cs r) \<noteq> Exited m"
  by (induction cs arbitrary: r; simp add: delete_chunks_step split: prod.splits option.splits)




lemma delete_chunks_purges:
  fixes layer :: "'r \<Rightarrow> feature list"
  assumes del: "\<forall>c s. \<exists>s'. delete_features w iml c s = (None, s')
                  \<and> layer s' = filter (\<lambda>f. fid f \<notin> set c) (layer s)"
  shows "outcome (delete_chunks w iml cs s) = Returned ()
         \<and> delete_calls (trace (delete_chunks w iml cs s)) = cs
         \<and> layer (remote (delete_chunks w iml cs s)) =
             filter (\<lambda>f. fid f \<notin> set (concat cs)) (layer s)"
proof (induction cs arbitrary: s)
  case Nil
  show ?case by simp
next
  case (Cons c cs)
  from del obtain s' where s': "delete_features w iml c s = (None, s')"
    "layer s' = filter (\<lambda>f. fid f \<notin> set c) (layer s)" by blast
  have "filter (\<lambda>f. fid f \<notin> set (concat cs)) (filter (\<lambda>f. fid f \<notin> set c) (layer s))
          = filter (\<lambda>f. fid f \<notin> set (concat (c # cs))) (layer s)"
    by (simp add: conj_commute)
  with Cons.IH [of s'] s' show ?case
    by (simp add: delete_chunks_step)
qed

lemma refresh_layer_Inl:
  assumes "search_features w iml search_params r = Inl e"
  shows "refresh_layer w iml r = Run (Raised e) [Search iml search_params] r"
  using assms by (simp add: refresh_layer_def)

lemma refresh_layer_Inr:
  assumes "search_features w iml search_params r = Inr fs"
  shows "refresh_layer w iml r =
           Run (outcome (delete_chunks w iml (feature_ids_chunks (map fid fs)) r))
             ([Search iml search_params, Print msg_deleting]
              @ trace (delete_chunks w iml (feature_ids_chunks (map fid fs)) r))
             (remote (delete_chunks w iml (feature_ids_chunks (map fid fs)) r))"
  using assms by (simp add: refresh_layer_def Let_def)

lemma refresh_layer_quiet:
  "write_calls (trace (refresh_layer w iml r)) = []"
  "\<forall>e \<in> set (trace (refresh_layer w iml r)). \<not> is_open e"
  "outcome (refresh_layer w iml r) \<noteq> Exited m"
  by (cases "search_features w iml search_params r";
      simp add: refresh_layer_Inl refresh_layer_Inr delete_chunks_quiet delete_chunks_not_exited)+

lemma upload_geo_data_cases:
  fixes w :: "'r world" and gp cp :: string and refresh :: bool and r :: 'r
  defines "run \<equiv> upload_geo_data w gp cp refresh r"
  obtains
    (stopped) "\<forall>e \<in> set (trace run). \<not> is_open e" "write_calls (trace run) = []"
      "outcome run \<noteq> Returned ()"
  | (reached) iml pre r1 where "\<forall>e \<in> set pre. \<not> is_open e" "write_calls pre = []"
      "run = Run (outcome (upload_file w iml gp r1)) (pre @ trace (upload_file w iml gp r1))
               (remote (upload_file w iml gp r1))"
proof (cases "get_here_iml w cp r")
  case (Run out t0 r0)
  have q0: "\<forall>e \<in> set t0. \<not> is_open e" "write_calls t0 = []"
    using get_here_iml_quiet(4,2)[of w cp r] by (simp_all add: Run)
  show ?thesis
  proof (cases out)
    case (Returned iml)
    define m where "m = (if refresh then refresh_layer w iml r0 else Run (Returned ()) [] r0)"
    have qm: "\<forall>e \<in> set (trace m). \<not> is_open e" "write_calls (trace m) = []"
      "\<And>s. outcome m \<noteq> Exited s"
      by (simp_all add: m_def refresh_layer_quiet)
    have unfold: "run = then_run (Run (Returned ()) t0 r0) (\<lambda>_ r1. then_run m (\<lambda>_. upload_file w iml gp))"
      by (simp add: run_def upload_geo_data_def Run Returned m_def)
    show ?thesis
    proof (cases m)
      case m: (Run outm t1 r1)
      show ?thesis
      proof (cases outm)
        case R: (Returned u)
        have "run = Run (outcome (upload_file w iml gp r1)) ((t0 @ t1) @ trace (upload_file w iml gp r1))
               (remote (upload_file w iml gp r1))"
          by (simp add: unfold m R)
        moreover have "\<forall>e \<in> set (t0 @ t1). \<not> is_open e" "write_calls (t0 @ t1) = []"
          using q0 qm by (auto simp add: m)
        ultimately show ?thesis using reached by blast
      next
        case (Raised e)
        have "run = Run (Raised e) (t0 @ t1) r1" by (simp add: unfold m Raised)
        then show ?thesis using stopped q0 qm by (auto simp add: m)
      next
        case (Exited s)
        with qm(3)[of s] m show ?thesis by simp
      qed
    qed
  next
    case (Raised e)
    have "run = Run (Raised e) t0 r0" by (simp add: run_def upload_geo_data_def Run Raised)
    then show ?thesis using stopped q0 by simp
  next
    case (Exited s)
    have "run = Run (Exited s) t0 r0" by (simp add: run_def upload_geo_data_def Run Exited)
    then show ?thesis using stopped q0 by simp
  qed
qed

lemma reaches_file_iff:
  "OpenFile gp \<in> set (trace (upload_geo_data w gp cp refresh r)) \<longleftrightarrow>
     (\<exists>iml. outcome (get_here_iml w cp r) = Returned iml
        \<and> (refresh \<longrightarrow>
              outcome (refresh_layer w iml (remote (get_here_iml w cp r))) = Returned ()))"
proof (cases "get_here_iml w cp r")
  case (Run out t0 r0)
  have o0: "OpenFile gp \<notin> set t0"
    using get_here_iml_quiet(4) [of w cp r] by (intro no_open_member) (simp add: Run)
  show ?thesis
  proof (cases out)
    case (Returned iml)
    show ?thesis
    proof (cases refresh)
      case False
      then show ?thesis
        by (simp add: upload_geo_data_def Run Returned upload_file_opens)
    next
      case True
      obtain outm t1 r1 where m: "refresh_layer w iml r0 = Run outm t1 r1"
        by (cases "refresh_layer w iml r0")
      have o1: "OpenFile gp \<notin> set t1"
        using refresh_layer_quiet(2) [of w iml r0] by (intro no_open_member) (simp add: m)
      show ?thesis
      proof (cases outm)
        case R: (Returned u)
        then show ?thesis
          by (simp add: upload_geo_data_def Run Returned True m upload_file_opens)
      next
        case (Raised e)
        then show ?thesis
          using o0 o1 by (simp add: upload_geo_data_def Run Returned True m)
      next
        case (Exited s)
        then show ?thesis
          using o0 o1 by (simp add: upload_geo_data_def Run Returned True m)
      qed
    qed
  next
    case (Raised e)
    then show ?thesis using o0 by (simp add: upload_geo_data_def Run)
  next
    case (Exited s)
    then show ?thesis using o0 by (simp add: upload_geo_data_def Run)
  qed
qed

lemma upload_refresh_shape:
  assumes resolved: "get_here_iml w cp r = Run (Returned iml) t0 r0"
    and found: "search_features w iml search_params r0 = Inr fs"
  shows "outcome (delete_chunks w iml (feature_ids_chunks (map fid fs)) r0) = Returned () \<Longrightarrow>
           upload_geo_data w gp cp True r =
             Run (outcome (upload_file w iml gp
                    (remote (delete_chunks w iml (feature_ids_chunks (map fid fs)) r0))))
               (t0 @ [Search iml search_params, Print msg_deleting]
                @ trace (delete_chunks w iml (feature_ids_chunks (map fid fs)) r0)
                @ trace (upload_file w iml gp
                    (remote (delete_chunks w iml (feature_ids_chunks (map fid fs)) r0))))
               (remote (upload_file w iml gp
                    (remote (delete_chunks w iml (feature_ids_chunks (map fid fs)) r0))))"
    and "outcome (delete_chunks w iml (feature_ids_chunks (map fid fs)) r0) = Raised e \<Longrightarrow>
           upload_geo_data w gp cp True r =
             Run (Raised e)
               (t0 @ [Search iml search_params, Print msg_deleting]
                @ trace (delete_chunks w iml (feature_ids_chunks (map fid fs)) r0))
               (remote (delete_chunks w iml (feature_ids_chunks (map fid fs)) r0))"
  by (simp_all add: upload_geo_data_def resolved refresh_layer_Inr [OF found])





lemma no_delete_after_open:
  "delete_calls (from_open (trace (upload_geo_data w gp cp refresh r))) = []"
proof (cases rule: upload_geo_data_cases [of w gp cp refresh r])
  case stopped
  then show ?thesis by (simp add: from_open_quiet(2))
next
  case (reached iml pre r1)
  then show ?thesis
    by (simp add: from_open_quiet(1) upload_file_from_open upload_file_quiet(1))
qed

lemma purged_then_file_fails:
  fixes layer :: "'r \<Rightarrow> feature list"
  assumes resolved: "get_here_iml w cp r = Run (Returned iml) t0 r0"
    and search: "\<forall>s. search_features w iml search_params s = Inr (layer s)"
    and del: "\<forall>c s. \<exists>s'. delete_features w iml c s = (None, s')
                  \<and> layer s' = filter (\<lambda>f. fid f \<notin> set c) (layer s)"
    and bad: "upload_file w iml gp
                (remote (delete_chunks w iml (feature_ids_chunks (map fid (layer r0))) r0))
              = Run (Raised e) t
                (remote (delete_chunks w iml (feature_ids_chunks (map fid (layer r0))) r0))"
      "write_calls t = []"
  shows "outcome (upload_geo_data w gp cp True r) = Raised e
         \<and> layer (remote (upload_geo_data w gp cp True r)) = []
         \<and> write_calls (trace (upload_geo_data w gp cp True r)) = []
         \<and> concat (delete_calls (trace (upload_geo_data w gp cp True r))) = map fid (layer r0)"
proof -
  define cs where "cs = feature_ids_chunks (map fid (layer r0))"
  define D where "D = delete_chunks w iml cs r0"
  have found: "search_features w iml search_params r0 = Inr (layer r0)"
    using search by simp
  note purge = delete_chunks_purges [OF del, of cs r0, folded D_def]
  have ret: "outcome D = Returned ()" using purge by simp
  note shape = upload_refresh_shape(1) [OF resolved found, where gp = gp,
      folded cs_def, folded D_def, OF ret]
  have q0: "delete_calls t0 = []" "write_calls t0 = []"
    using get_here_iml_quiet(1,2) [of w cp r] by (simp_all add: resolved)
  have cc: "concat cs = map fid (layer r0)"
    unfolding cs_def by (rule concat_feature_ids_chunks)
  have "layer (remote D) = filter (\<lambda>f. fid f \<notin> set (map fid (layer r0))) (layer r0)"
    using purge by (simp add: cc)
  then have empty: "layer (remote D) = []" by simp
  have wD: "write_calls (trace D) = []"
    unfolding D_def by (rule delete_chunks_quiet(1))
  have dD: "delete_calls (trace D) = cs" using purge by simp
  have U: "upload_file w iml gp (remote D) = Run (Raised e) t (remote D)"
    using bad(1) by (simp only: D_def cs_def)
  have dt: "delete_calls t = []"
    using upload_file_quiet(1) [of w iml gp "remote D"] by (simp add: U)
  show ?thesis
    by (simp add: shape U q0 wD dD dt empty bad(2) cc)
qed

lemmas world_defs =
  example_world_def no_layer_world_def locked_out_world_def flaky_world_def
  example_files_def example_load_def layer_search_def layer_delete_def layer_write_def
  three_rides_text_def no_rides_text_def

lemmas run_defs = get_here_iml_def upload_geo_data_def upload_file_def refresh_layer_def

lemma example_resolves:
  "get_here_iml example_world cp r = Run (Returned example_iml) (found_trace cp) r"
  by (simp add: world_defs run_defs found_trace_def)








lemma repr_example: "py_repr ''missing.geojson'' = quoted ''missing.geojson''"
  by (simp add: py_repr_def py_repr_char_def quoted_def Let_def)

lemma get_here_iml_no_write: "filter is_write (trace (get_here_iml w cp r)) = []"
  by (simp add: get_here_iml_def split: sum.splits prod.splits)

lemma delete_chunks_no_write: "filter is_write (trace (delete_chunks w iml cs r)) = []"
  by (induction cs arbitrary: r; simp add: delete_chunks_step split: prod.splits option.splits)

lemma refresh_layer_no_write: "filter is_write (trace (refresh_layer w iml r)) = []"
  by (cases "search_features w iml search_params r";
      simp add: refresh_layer_Inl refresh_layer_Inr delete_chunks_no_write)

lemma feature_of_feature_json: "feature_of (feature_json f) = Some f"
  by (simp add: feature_json_def)

lemma features_of_feature_collection:
  "features_of (feature_collection (map feature_json fs)) = fs"
  by (induction fs) (simp_all add: feature_collection_def feature_of_feature_json)

lemma upload_file_truthy:
  assumes "files w gp = Some body" and "geojson_load w body = Inr geo_data"
    and "truthy geo_data" and "write_features w iml geo_data r = (res, r')"
  shows "upload_file w iml gp r =
           Run (case res of None \<Rightarrow> Returned () | Some error \<Rightarrow> Raised error)
             [OpenFile gp, Load, Print (msg_uploading gp), Write iml geo_data res] r'"
  using assms by (simp add: upload_file_def)

lemma upload_file_falsy:
  assumes "files w gp = Some body" and "geojson_load w body = Inr geo_data"
    and "\<not> truthy geo_data"
  shows "upload_file w iml gp r = Run (Returned ()) [OpenFile gp, Load] r"
  using assms by (simp add: upload_file_def)

lemma from_open_at_open: "from_open (OpenFile p # t) = OpenFile p # t"
  by (simp add: from_open_def)

lemma get_here_iml_state:
  "remote (get_here_iml w cp r) = r
   \<or> (\<exists>c. remote (get_here_iml w cp r) = snd (iml_new w new_kwargs c r))"
proof (cases "from_credentials_file w cp")
  case (Inl e)
  then show ?thesis by (simp add: get_here_iml_def)
next
  case (Inr c)
  show ?thesis
  proof (cases "from_catalog_hrn_and_layer_id w lookup_kwargs c r")
    case found: (Inr iml)
    with Inr show ?thesis by (simp add: get_here_iml_def)
  next
    case (Inl e)
    have "remote (get_here_iml w cp r) = snd (iml_new w new_kwargs c r)"
      using Inr Inl by (simp add: get_here_iml_def split: prod.splits sum.splits)
    then show ?thesis by blast
  qed
qed

lemma upload_geo_data_resolved:
  assumes resolved: "get_here_iml w cp r = Run (Returned iml) t0 r0"
    and purged: "refresh \<longrightarrow> outcome (refresh_layer w iml r0) = Returned ()"
    and r1: "r1 = (if refresh then remote (refresh_layer w iml r0) else r0)"
  shows "\<exists>pre. (\<forall>e \<in> set pre. \<not> is_open e) \<and> filter is_write pre = []
           \<and> write_calls pre = []
           \<and> upload_geo_data w gp cp refresh r =
               Run (outcome (upload_file w iml gp r1)) (pre @ trace (upload_file w iml gp r1))
                 (remote (upload_file w iml gp r1))"
proof (cases refresh)
  case False
  have "\<forall>e \<in> set t0. \<not> is_open e" "filter is_write t0 = []" "write_calls t0 = []"
    using get_here_iml_quiet(4,2) [of w cp r] get_here_iml_no_write [of w cp r]
    by (simp_all add: resolved)
  moreover have "upload_geo_data w gp cp refresh r =
               Run (outcome (upload_file w iml gp r1)) (t0 @ trace (upload_file w iml gp r1))
                 (remote (upload_file w iml gp r1))"
    by (simp add: upload_geo_data_def resolved False r1)
  ultimately show ?thesis by blast
next
  case True
  obtain t1 where m: "refresh_layer w iml r0 = Run (Returned ()) t1 r1"
    using purged True r1 by (cases "refresh_layer w iml r0") simp
  have "\<forall>e \<in> set (t0 @ t1). \<not> is_open e" "filter is_write (t0 @ t1) = []"
    "write_calls (t0 @ t1) = []"
    using get_here_iml_quiet(4,2) [of w cp r] get_here_iml_no_write [of w cp r]
      refresh_layer_quiet(2,1) [of w iml r0] refresh_layer_no_write [of w iml r0]
    by (simp_all add: resolved m ball_Un)
  moreover have "upload_geo_data w gp cp refresh r =
               Run (outcome (upload_file w iml gp r1)) ((t0 @ t1) @ trace (upload_file w iml gp r1))
                 (remote (upload_file w iml gp r1))"
    by (simp add: upload_geo_data_def resolved True m)
  ultimately show ?thesis by blast
qed

lemma read_only_resolves:
  "get_here_iml read_only_world cp r = Run (Returned example_iml) (found_trace cp) r"
  by (simp add: read_only_world_def world_defs run_defs found_trace_def)

lemma example_write_three_rides:
  "write_features example_world iml
     (feature_collection [feature_json ride_a, feature_json ride_b, feature_json ride_c]) layer
   = (None, layer @ [ride_a, ride_b, ride_c])"
  using features_of_feature_collection [of "[ride_a, ride_b, ride_c]"]
  by (simp add: example_world_def layer_write_def)

lemma example_purge:
  "refresh_layer example_world example_iml example_layer =
     Run (Returned ())
       [Search example_iml search_params, Print msg_deleting,
        Delete example_iml [''6001'', ''6002''] None] []"
  by (simp add: example_world_def layer_search_def layer_delete_def refresh_layer_def
      example_layer_def feature_ids_chunks_blocks delete_chunks_step)

lemma read_only_purge:
  "refresh_layer read_only_world example_iml example_layer =
     Run (Returned ())
       [Search example_iml search_params, Print msg_deleting,
        Delete example_iml [''6001'', ''6002''] None] []"
  by (simp add: read_only_world_def example_world_def layer_search_def layer_delete_def
      refresh_layer_def example_layer_def feature_ids_chunks_blocks delete_chunks_step)

subsection \<open>The chunking of the identifiers\<close>

text \<open>
  C1. For every identifier sequence of length \<open>N\<close>, the chunking of lines 114--115
  yields \<open>\<lceil>N / 100\<rceil>\<close> batches; batch \<open>k\<close> is the contiguous slice of 100 positions
  starting at \<open>100 * k\<close>; every batch but the last has exactly 100 elements and the
  last one has \<open>N mod 100\<close> elements when that is not zero and 100 otherwise; and the
  batches concatenated in order give back the sequence.
\<close>

theorem C1_chunking_partitions:
  "int (length (feature_ids_chunks xs)) = \<lceil>real (length xs) / 100\<rceil>
   \<and> (\<forall>k < length (feature_ids_chunks xs).
        feature_ids_chunks xs ! k = take 100 (drop (100 * k) xs)
        \<and> length (feature_ids_chunks xs ! k) =
            (if Suc k < length (feature_ids_chunks xs) then 100
             else if length xs mod 100 \<noteq> 0 then length xs mod 100 else 100))
   \<and> concat (feature_ids_chunks xs) = xs"
proof (intro conjI allI impI)
  show "int (length (feature_ids_chunks xs)) = \<lceil>real (length xs) / 100\<rceil>"
    by (simp only: ceiling_chunk_count length_feature_ids_chunks)
next
  fix k assume "k < length (feature_ids_chunks xs)"
  then show "feature_ids_chunks xs ! k = take 100 (drop (100 * k) xs)"
    by (rule nth_feature_ids_chunks)
next
  fix k assume "k < length (feature_ids_chunks xs)"
  then show "length (feature_ids_chunks xs ! k) =
            (if Suc k < length (feature_ids_chunks xs) then 100
             else if length xs mod 100 \<noteq> 0 then length xs mod 100 else 100)"
    by (rule length_nth_feature_ids_chunks)
next
  show "concat (feature_ids_chunks xs) = xs"
    by (rule concat_feature_ids_chunks)
qed

theorem C1_chunking_partitions_witness:
  "(2::nat) < length (feature_ids_chunks [0 ..< 250::nat])
   \<and> length (feature_ids_chunks [0 ..< 250::nat]) = 3
   \<and> feature_ids_chunks [0 ..< 250::nat] ! 2 = [200 ..< 250]
   \<and> length (feature_ids_chunks [0 ..< 250::nat] ! 2) = 50
   \<and> concat (feature_ids_chunks [0 ..< 250::nat]) = [0 ..< 250]"
proof -
  note inst = C1_chunking_partitions [of "[0 ..< 250::nat]"]
  have n: "length (feature_ids_chunks [0 ..< 250::nat]) = 3"
    using inst by simp
  then have k: "(2::nat) < length (feature_ids_chunks [0 ..< 250::nat])"
    by simp
  from inst k have
    "feature_ids_chunks [0 ..< 250::nat] ! 2 = take 100 (drop (100 * 2) [0 ..< 250])
     \<and> length (feature_ids_chunks [0 ..< 250::nat] ! 2) =
          (if Suc 2 < length (feature_ids_chunks [0 ..< 250::nat]) then 100
           else if length [0 ..< 250::nat] mod 100 \<noteq> 0
                then length [0 ..< 250::nat] mod 100 else 100)"
    by blast
  then have "feature_ids_chunks [0 ..< 250::nat] ! 2 = [200 ..< 250]
     \<and> length (feature_ids_chunks [0 ..< 250::nat] ! 2) = 50"
    by (simp add: n)
  with n k inst show ?thesis by simp
qed

subsection \<open>The resolver\<close>

text \<open>
  C4. Whenever the lookup of the existing layer succeeds (it is made once the
  credentials are loaded), \<^verbatim>\<open>_get_here_iml\<close> returns the handle the lookup gave,
  makes no call to \<^verbatim>\<open>IML.new\<close>, and leaves the platform as it was.
\<close>

theorem C4_lookup_success_no_creation:
  assumes "from_credentials_file w cp = Inr c"
    and "from_catalog_hrn_and_layer_id w lookup_kwargs c r = Inr iml"
  shows "outcome (get_here_iml w cp r) = Returned iml
         \<and> new_calls (trace (get_here_iml w cp r)) = []
         \<and> remote (get_here_iml w cp r) = r"
  using assms by (simp add: get_here_iml_def)

theorem C4_lookup_success_no_creation_witness:
  "from_credentials_file example_world ''here.credentials'' = Inr (Credentials ''here.credentials'')
   \<and> from_catalog_hrn_and_layer_id example_world lookup_kwargs
         (Credentials ''here.credentials'') example_layer = Inr example_iml
   \<and> outcome (get_here_iml example_world ''here.credentials'' example_layer) = Returned example_iml
   \<and> new_calls (trace (get_here_iml example_world ''here.credentials'' example_layer)) = []
   \<and> remote (get_here_iml example_world ''here.credentials'' example_layer) = example_layer"
proof -
  have h1: "from_credentials_file example_world ''here.credentials''
              = Inr (Credentials ''here.credentials'')"
    by (simp add: world_defs)
  have h2: "from_catalog_hrn_and_layer_id example_world lookup_kwargs
              (Credentials ''here.credentials'') example_layer = Inr example_iml"
    by (simp add: world_defs)
  from C4_lookup_success_no_creation [OF h1 h2] h1 h2 show ?thesis by simp
qed

text \<open>
  C5. Whenever the lookup raises, whatever the exception \<open>e\<close>, \<^verbatim>\<open>_get_here_iml\<close> calls
  \<^verbatim>\<open>IML.new\<close> exactly once, with the fixed arguments; and when that call raises too,
  the outcome is \<^verbatim>\<open>sys.exit\<close> with the remote error text in the message: no handle is
  returned, and \<^verbatim>\<open>upload_geo_data\<close> ends there, with nothing done after the resolver.
\<close>

theorem C5_lookup_failure_creates_once:
  assumes "from_credentials_file w cp = Inr c"
    and "from_catalog_hrn_and_layer_id w lookup_kwargs c r = Inl e"
  shows "new_calls (trace (get_here_iml w cp r)) = [new_kwargs]
         \<and> (\<forall>e' r'. iml_new w new_kwargs c r = (Inl e', r') \<longrightarrow>
               outcome (get_here_iml w cp r) = Exited (msg_exit e')
               \<and> upload_geo_data w gp cp refresh r =
                   Run (Exited (msg_exit e')) (trace (get_here_iml w cp r)) r')"
  using assms by (auto simp add: get_here_iml_def upload_geo_data_def split: sum.splits prod.splits)

theorem C5_lookup_failure_creates_once_witness:
  "from_credentials_file locked_out_world ''here.credentials'' = Inr (Credentials ''here.credentials'')
   \<and> from_catalog_hrn_and_layer_id locked_out_world lookup_kwargs
         (Credentials ''here.credentials'') example_layer = Inl (Exn ''HTTPError'' ''404 Not Found'')
   \<and> iml_new locked_out_world new_kwargs (Credentials ''here.credentials'') example_layer
        = (Inl (Exn ''HTTPError'' ''403 Forbidden''), example_layer)
   \<and> new_calls (trace (get_here_iml locked_out_world ''here.credentials'' example_layer))
        = [new_kwargs]
   \<and> outcome (get_here_iml locked_out_world ''here.credentials'' example_layer)
        = Exited ''[ERROR]: HERE returned the following error: 403 Forbidden''
   \<and> outcome (upload_geo_data locked_out_world ''rides.geojson'' ''here.credentials'' True
        example_layer)
        = Exited ''[ERROR]: HERE returned the following error: 403 Forbidden''
   \<and> trace (upload_geo_data locked_out_world ''rides.geojson'' ''here.credentials'' True
        example_layer)
        = trace (get_here_iml locked_out_world ''here.credentials'' example_layer)"
proof -
  have h1: "from_credentials_file locked_out_world ''here.credentials''
              = Inr (Credentials ''here.credentials'')"
    by (simp add: world_defs)
  have h2: "from_catalog_hrn_and_layer_id locked_out_world lookup_kwargs
              (Credentials ''here.credentials'') example_layer
              = Inl (Exn ''HTTPError'' ''404 Not Found'')"
    by (simp add: world_defs)
  have h3: "iml_new locked_out_world new_kwargs (Credentials ''here.credentials'') example_layer
              = (Inl (Exn ''HTTPError'' ''403 Forbidden''), example_layer)"
    by (simp add: world_defs)
  have m: "msg_exit (Exn ''HTTPError'' ''403 Forbidden'')
             = ''[ERROR]: HERE returned the following error: 403 Forbidden''"
    by (simp add: msg_exit_def)
  note inst = C5_lookup_failure_creates_once [OF h1 h2, of "''rides.geojson''" True]
  from inst have calls:
    "new_calls (trace (get_here_iml locked_out_world ''here.credentials'' example_layer))
       = [new_kwargs]"
    by (rule conjunct1)
  from inst h3 have
    "outcome (get_here_iml locked_out_world ''here.credentials'' example_layer)
       = Exited (msg_exit (Exn ''HTTPError'' ''403 Forbidden''))
     \<and> upload_geo_data locked_out_world ''rides.geojson'' ''here.credentials'' True example_layer
       = Run (Exited (msg_exit (Exn ''HTTPError'' ''403 Forbidden'')))
           (trace (get_here_iml locked_out_world ''here.credentials'' example_layer))
           example_layer"
    by blast
  with calls h1 h2 h3 m show ?thesis by simp
qed

subsection \<open>The purge\<close>

text \<open>
  C6. With \<open>refresh = False\<close>, in every world and from every state of the platform
  (whatever the number of features on the layer), \<^verbatim>\<open>upload_geo_data\<close> makes no delete
  call and no search call. The state the run leaves is the state the resolver left,
  changed by the one write call at most: it is the result of that call when the file
  parses to a truthy value, and the resolver's state otherwise. On a platform where a
  write only adds features and creating the layer removes none (\<open>layer\<close> reads the
  features off the platform's state), the features that were on the layer before the
  run are all still there after it, unchanged and in their order.
\<close>

theorem C6_no_refresh_no_purge:
  fixes w :: "'r world" and layer :: "'r \<Rightarrow> feature list"
  shows
  "delete_calls (trace (upload_geo_data w gp cp False r)) = []
   \<and> search_calls (trace (upload_geo_data w gp cp False r)) = []
   \<and> (\<forall>iml t0 r0. get_here_iml w cp r = Run (Returned iml) t0 r0 \<longrightarrow>
         remote (upload_geo_data w gp cp False r) =
           (case files w gp of
              None \<Rightarrow> r0
            | Some body \<Rightarrow>
                (case geojson_load w body of
                   Inl error \<Rightarrow> r0
                 | Inr geo_data \<Rightarrow>
                     if truthy geo_data then snd (write_features w iml geo_data r0) else r0)))
   \<and> ((\<forall>iml. outcome (get_here_iml w cp r) \<noteq> Returned iml) \<longrightarrow>
         remote (upload_geo_data w gp cp False r) = remote (get_here_iml w cp r))
   \<and> ((\<forall>iml geo_data s. \<exists>added.
            layer (snd (write_features w iml geo_data s)) = layer s @ added)
        \<and> (\<forall>kwargs c s. layer (snd (iml_new w kwargs c s)) = layer s)
        \<longrightarrow> (\<exists>added. layer (remote (upload_geo_data w gp cp False r)) = layer r @ added))"
proof -
  obtain out t0 r0 where Run: "get_here_iml w cp r = Run out t0 r0"
    by (cases "get_here_iml w cp r")
  have q: "delete_calls t0 = []" "search_calls t0 = []"
    using get_here_iml_quiet(1,3) [of w cp r] by (simp_all add: Run)
  have file_state: "\<And>iml. remote (upload_file w iml gp r0) =
           (case files w gp of
              None \<Rightarrow> r0
            | Some body \<Rightarrow>
                (case geojson_load w body of
                   Inl error \<Rightarrow> r0
                 | Inr geo_data \<Rightarrow>
                     if truthy geo_data then snd (write_features w iml geo_data r0) else r0))"
    by (simp add: upload_file_def split: option.splits sum.splits prod.splits)
  have run: "upload_geo_data w gp cp False r =
      (case out of
         Returned iml \<Rightarrow>
           Run (outcome (upload_file w iml gp r0)) (t0 @ trace (upload_file w iml gp r0))
             (remote (upload_file w iml gp r0))
       | Raised e \<Rightarrow> Run (Raised e) t0 r0
       | Exited m \<Rightarrow> Run (Exited m) t0 r0)"
    by (cases out) (simp_all add: upload_geo_data_def Run)
  have no_delete: "delete_calls (trace (upload_geo_data w gp cp False r)) = []"
    by (cases out) (simp_all add: run q upload_file_quiet(1))
  have no_search: "search_calls (trace (upload_geo_data w gp cp False r)) = []"
    by (cases out) (simp_all add: run q upload_file_quiet(2))
  have state: "\<forall>iml t0 r0. get_here_iml w cp r = Run (Returned iml) t0 r0 \<longrightarrow>
         remote (upload_geo_data w gp cp False r) =
           (case files w gp of
              None \<Rightarrow> r0
            | Some body \<Rightarrow>
                (case geojson_load w body of
                   Inl error \<Rightarrow> r0
                 | Inr geo_data \<Rightarrow>
                     if truthy geo_data then snd (write_features w iml geo_data r0) else r0))"
    by (cases out) (simp_all add: run Run file_state)
  have unresolved: "(\<forall>iml. outcome (get_here_iml w cp r) \<noteq> Returned iml) \<longrightarrow>
         remote (upload_geo_data w gp cp False r) = remote (get_here_iml w cp r)"
    by (cases out) (simp_all add: run Run)
  have survive: "(\<forall>iml geo_data s. \<exists>added.
            layer (snd (write_features w iml geo_data s)) = layer s @ added)
        \<and> (\<forall>kwargs c s. layer (snd (iml_new w kwargs c s)) = layer s)
        \<longrightarrow> (\<exists>added. layer (remote (upload_geo_data w gp cp False r)) = layer r @ added)"
  proof (intro impI, elim conjE)
    assume adds: "\<forall>iml geo_data s. \<exists>added.
            layer (snd (write_features w iml geo_data s)) = layer s @ added"
      and new: "\<forall>kwargs c s. layer (snd (iml_new w kwargs c s)) = layer s"
    have "r0 = r \<or> (\<exists>c. r0 = snd (iml_new w new_kwargs c r))"
      using get_here_iml_state [of w cp r] by (simp add: Run)
    with new have same: "layer r0 = layer r" by auto
    have grown: "\<And>iml. \<exists>added. layer (remote (upload_file w iml gp r0)) = layer r0 @ added"
    proof -
      fix iml
      from adds have one: "\<And>g. \<exists>added. layer (snd (write_features w iml g r0)) = layer r0 @ added"
        by blast
      show "\<exists>added. layer (remote (upload_file w iml gp r0)) = layer r0 @ added"
        unfolding file_state using one by (simp split: option.splits sum.splits)
    qed
    show "\<exists>added. layer (remote (upload_geo_data w gp cp False r)) = layer r @ added"
    proof (cases out)
      case (Returned iml)
      with grown [of iml] same show ?thesis by (simp add: run)
    next
      case (Raised e)
      with same show ?thesis by (simp add: run)
    next
      case (Exited m)
      with same show ?thesis by (simp add: run)
    qed
  qed
  from no_delete no_search state unresolved survive show ?thesis by (intro conjI)
qed

theorem C6_no_refresh_no_purge_witness:
  "get_here_iml example_world ''here.credentials'' example_layer =
     Run (Returned example_iml) (found_trace ''here.credentials'') example_layer
   \<and> (\<forall>iml geo_data s. \<exists>added. snd (write_features example_world iml geo_data s) = s @ added)
   \<and> (\<forall>kwargs c s. snd (iml_new example_world kwargs c s) = s)
   \<and> length example_layer = 2
   \<and> delete_calls (trace (upload_geo_data example_world ''rides.geojson'' ''here.credentials''
        False example_layer)) = []
   \<and> search_calls (trace (upload_geo_data example_world ''rides.geojson'' ''here.credentials''
        False example_layer)) = []
   \<and> remote (upload_geo_data example_world ''rides.geojson'' ''here.credentials''
        False example_layer) = example_layer @ [ride_a, ride_b, ride_c]
   \<and> (\<exists>added. remote (upload_geo_data example_world ''rides.geojson'' ''here.credentials''
        False example_layer) = example_layer @ added)"
proof -
  have g: "get_here_iml example_world ''here.credentials'' example_layer =
     Run (Returned example_iml) (found_trace ''here.credentials'') example_layer"
    by (rule example_resolves)
  have adds: "\<forall>iml geo_data s. \<exists>added.
      snd (write_features example_world iml geo_data s) = s @ added"
    by (simp add: example_world_def layer_write_def)
  have keeps: "\<forall>kwargs c s. snd (iml_new example_world kwargs c s) = s"
    by (simp add: example_world_def)
  have n: "length example_layer = 2" by (simp add: example_layer_def)
  have st: "(case files example_world ''rides.geojson'' of
              None \<Rightarrow> example_layer
            | Some body \<Rightarrow>
                (case geojson_load example_world body of
                   Inl error \<Rightarrow> example_layer
                 | Inr geo_data \<Rightarrow>
                     if truthy geo_data
                     then snd (write_features example_world example_iml geo_data example_layer)
                     else example_layer))
            = example_layer @ [ride_a, ride_b, ride_c]"
  proof -
    have f: "files example_world ''rides.geojson'' = Some three_rides_text"
      by (simp add: example_world_def example_files_def)
    have p: "geojson_load example_world three_rides_text =
        Inr (feature_collection [feature_json ride_a, feature_json ride_b, feature_json ride_c])"
      by (simp add: example_world_def example_load_def)
    show ?thesis
      by (simp add: f p truthy_feature_collection example_write_three_rides)
  qed
  note inst = C6_no_refresh_no_purge [of example_world "''rides.geojson''" "''here.credentials''" example_layer
      "\<lambda>s. s"]
  have d: "delete_calls (trace (upload_geo_data example_world ''rides.geojson''
        ''here.credentials'' False example_layer)) = []"
    using inst by (elim conjE)
  have s: "search_calls (trace (upload_geo_data example_world ''rides.geojson''
        ''here.credentials'' False example_layer)) = []"
    using inst by (elim conjE)
  from inst g have "remote (upload_geo_data example_world ''rides.geojson''
        ''here.credentials'' False example_layer) =
          (case files example_world ''rides.geojson'' of
              None \<Rightarrow> example_layer
            | Some body \<Rightarrow>
                (case geojson_load example_world body of
                   Inl error \<Rightarrow> example_layer
                 | Inr geo_data \<Rightarrow>
                     if truthy geo_data
                     then snd (write_features example_world example_iml geo_data example_layer)
                     else example_layer))"
    by blast
  with st have r: "remote (upload_geo_data example_world ''rides.geojson''
        ''here.credentials'' False example_layer) = example_layer @ [ride_a, ride_b, ride_c]"
    by (simp only:)
  from inst adds keeps have e: "\<exists>added. remote (upload_geo_data example_world ''rides.geojson''
        ''here.credentials'' False example_layer) = example_layer @ added"
    by blast
  from g adds keeps n d s r e show ?thesis by (intro conjI)
qed

text \<open>
  C7. With \<open>refresh = True\<close>, when the resolver returns a handle and the search returns
  no feature, the list of batches is empty, no delete call is made, and the run goes on
  to open the file: what follows the purge is exactly the file phase, run on the state
  the resolver left.
\<close>

theorem C7_refresh_of_empty_layer:
  assumes resolved: "get_here_iml w cp r = Run (Returned iml) t0 r0"
    and none: "search_features w iml search_params r0 = Inr []"
  shows "feature_ids_chunks (map fid ([] :: feature list)) = []
         \<and> delete_calls (trace (upload_geo_data w gp cp True r)) = []
         \<and> OpenFile gp \<in> set (trace (upload_geo_data w gp cp True r))
         \<and> upload_geo_data w gp cp True r =
             Run (outcome (upload_file w iml gp r0))
               (t0 @ [Search iml search_params, Print msg_deleting]
                @ trace (upload_file w iml gp r0))
               (remote (upload_file w iml gp r0))"
proof -
  have chunks: "feature_ids_chunks ([] :: string list) = []"
    by (simp add: feature_ids_chunks_blocks)
  have "refresh_layer w iml r0 = Run (Returned ()) [Search iml search_params, Print msg_deleting] r0"
    by (simp add: refresh_layer_Inr [OF none] chunks)
  then have run: "upload_geo_data w gp cp True r =
             Run (outcome (upload_file w iml gp r0))
               (t0 @ [Search iml search_params, Print msg_deleting]
                @ trace (upload_file w iml gp r0))
               (remote (upload_file w iml gp r0))"
    by (simp add: upload_geo_data_def resolved)
  have "delete_calls t0 = []"
    using get_here_iml_quiet(1) [of w cp r] by (simp add: resolved)
  then show ?thesis
    by (simp add: chunks run upload_file_quiet upload_file_opens)
qed

theorem C7_refresh_of_empty_layer_witness:
  "get_here_iml example_world ''here.credentials'' [] =
     Run (Returned example_iml) (found_trace ''here.credentials'') []
   \<and> search_features example_world example_iml search_params [] = Inr []
   \<and> delete_calls (trace (upload_geo_data example_world ''rides.geojson''
        ''here.credentials'' True [])) = []
   \<and> OpenFile ''rides.geojson'' \<in> set (trace (upload_geo_data example_world ''rides.geojson''
        ''here.credentials'' True []))
   \<and> write_calls (trace (upload_geo_data example_world ''rides.geojson''
        ''here.credentials'' True [])) =
        [feature_collection [feature_json ride_a, feature_json ride_b, feature_json ride_c]]"
proof -
  have h1: "get_here_iml example_world ''here.credentials'' [] =
     Run (Returned example_iml) (found_trace ''here.credentials'') []"
    by (rule example_resolves)
  have h2: "search_features example_world example_iml search_params [] = Inr []"
    by (simp add: example_world_def layer_search_def)
  note inst = C7_refresh_of_empty_layer [OF h1 h2, of "''rides.geojson''"]
  have d: "delete_calls (trace (upload_geo_data example_world ''rides.geojson''
        ''here.credentials'' True [])) = []"
    using inst by (elim conjE)
  have op: "OpenFile ''rides.geojson'' \<in> set (trace (upload_geo_data example_world
        ''rides.geojson'' ''here.credentials'' True []))"
    using inst by (elim conjE)
  have run: "upload_geo_data example_world ''rides.geojson'' ''here.credentials'' True [] =
      Run (outcome (upload_file example_world example_iml ''rides.geojson'' []))
        (found_trace ''here.credentials'' @ [Search example_iml search_params, Print msg_deleting]
         @ trace (upload_file example_world example_iml ''rides.geojson'' []))
        (remote (upload_file example_world example_iml ''rides.geojson'' []))"
    using inst by (elim conjE)
  have w: "write_calls (trace (upload_file example_world example_iml ''rides.geojson'' [])) =
        [feature_collection [feature_json ride_a, feature_json ride_b, feature_json ride_c]]"
    by (simp add: world_defs upload_file_def feature_collection_def)
  have w0: "write_calls (found_trace ''here.credentials'') = []"
    by (simp add: found_trace_def)
  have "write_calls (trace (upload_geo_data example_world ''rides.geojson''
        ''here.credentials'' True [])) =
        [feature_collection [feature_json ride_a, feature_json ride_b, feature_json ride_c]]"
    by (simp add: run w w0)
  with h1 h2 d op show ?thesis by (intro conjI)
qed



text \<open>
  C10. With \<open>refresh = True\<close>, no delete call comes after the opening of the file.
  On a platform where the search returns the whole layer and a delete removes exactly
  the identifiers it is given (\<open>layer\<close> reads the features off the platform's state),
  a run whose resolver returns a handle and whose file is absent, or not parseable,
  ends with that exception, with no write call, after deleting every identifier of the
  layer: the layer is left empty.
\<close>

theorem C10_deletes_before_file:
  fixes w :: "'r world" and layer :: "'r \<Rightarrow> feature list"
  shows
  "delete_calls (from_open (trace (upload_geo_data w gp cp True r))) = []
   \<and> (\<forall>iml t0 r0.
        get_here_iml w cp r = Run (Returned iml) t0 r0
        \<and> (\<forall>s. search_features w iml search_params s = Inr (layer s))
        \<and> (\<forall>c s. \<exists>s'. delete_features w iml c s = (None, s')
                  \<and> layer s' = filter (\<lambda>f. fid f \<notin> set c) (layer s))
        \<longrightarrow>
        (files w gp = None \<longrightarrow>
           outcome (upload_geo_data w gp cp True r) = Raised (file_not_found gp)
           \<and> layer (remote (upload_geo_data w gp cp True r)) = []
           \<and> write_calls (trace (upload_geo_data w gp cp True r)) = []
           \<and> concat (delete_calls (trace (upload_geo_data w gp cp True r))) = map fid (layer r0))
        \<and> (\<forall>text e. files w gp = Some text \<and> geojson_load w text = Inl e \<longrightarrow>
           outcome (upload_geo_data w gp cp True r) = Raised e
           \<and> layer (remote (upload_geo_data w gp cp True r)) = []
           \<and> write_calls (trace (upload_geo_data w gp cp True r)) = []
           \<and> concat (delete_calls (trace (upload_geo_data w gp cp True r))) = map fid (layer r0)))"
proof (rule conjI)
  show "delete_calls (from_open (trace (upload_geo_data w gp cp True r))) = []"
    by (rule no_delete_after_open)
next
  show "\<forall>iml t0 r0.
        get_here_iml w cp r = Run (Returned iml) t0 r0
        \<and> (\<forall>s. search_features w iml search_params s = Inr (layer s))
        \<and> (\<forall>c s. \<exists>s'. delete_features w iml c s = (None, s')
                  \<and> layer s' = filter (\<lambda>f. fid f \<notin> set c) (layer s))
        \<longrightarrow>
        (files w gp = None \<longrightarrow>
           outcome (upload_geo_data w gp cp True r) = Raised (file_not_found gp)
           \<and> layer (remote (upload_geo_data w gp cp True r)) = []
           \<and> write_calls (trace (upload_geo_data w gp cp True r)) = []
           \<and> concat (delete_calls (trace (upload_geo_data w gp cp True r))) = map fid (layer r0))
        \<and> (\<forall>text e. files w gp = Some text \<and> geojson_load w text = Inl e \<longrightarrow>
           outcome (upload_geo_data w gp cp True r) = Raised e
           \<and> layer (remote (upload_geo_data w gp cp True r)) = []
           \<and> write_calls (trace (upload_geo_data w gp cp True r)) = []
           \<and> concat (delete_calls (trace (upload_geo_data w gp cp True r))) = map fid (layer r0))"
  proof (intro allI impI, elim conjE, rule conjI)
    fix iml t0 r0
    assume resolved: "get_here_iml w cp r = Run (Returned iml) t0 r0"
      and search: "\<forall>s. search_features w iml search_params s = Inr (layer s)"
      and del: "\<forall>c s. \<exists>s'. delete_features w iml c s = (None, s')
                  \<and> layer s' = filter (\<lambda>f. fid f \<notin> set c) (layer s)"
    note both = purged_then_file_fails [OF resolved search del]
    show "files w gp = None \<longrightarrow>
           outcome (upload_geo_data w gp cp True r) = Raised (file_not_found gp)
           \<and> layer (remote (upload_geo_data w gp cp True r)) = []
           \<and> write_calls (trace (upload_geo_data w gp cp True r)) = []
           \<and> concat (delete_calls (trace (upload_geo_data w gp cp True r))) = map fid (layer r0)"
    proof
      assume absent: "files w gp = None"
      show "outcome (upload_geo_data w gp cp True r) = Raised (file_not_found gp)
           \<and> layer (remote (upload_geo_data w gp cp True r)) = []
           \<and> write_calls (trace (upload_geo_data w gp cp True r)) = []
           \<and> concat (delete_calls (trace (upload_geo_data w gp cp True r))) = map fid (layer r0)"
        by (rule both [where t = "[OpenFile gp]"]) (simp_all add: upload_file_None [OF absent])
    qed
    show "\<forall>text e. files w gp = Some text \<and> geojson_load w text = Inl e \<longrightarrow>
           outcome (upload_geo_data w gp cp True r) = Raised e
           \<and> layer (remote (upload_geo_data w gp cp True r)) = []
           \<and> write_calls (trace (upload_geo_data w gp cp True r)) = []
           \<and> concat (delete_calls (trace (upload_geo_data w gp cp True r))) = map fid (layer r0)"
    proof (intro allI impI, elim conjE)
      fix body e
      assume present: "files w gp = Some body" and bad: "geojson_load w body = Inl e"
      show "outcome (upload_geo_data w gp cp True r) = Raised e
           \<and> layer (remote (upload_geo_data w gp cp True r)) = []
           \<and> write_calls (trace (upload_geo_data w gp cp True r)) = []
           \<and> concat (delete_calls (trace (upload_geo_data w gp cp True r))) = map fid (layer r0)"
        by (rule both [where t = "[OpenFile gp, Load]"])
          (simp_all add: upload_file_Inl [OF present bad])
    qed
  qed
qed

theorem C10_deletes_before_file_witness:
  "get_here_iml example_world ''here.credentials'' example_layer =
     Run (Returned example_iml) (found_trace ''here.credentials'') example_layer
   \<and> (\<forall>s. search_features example_world example_iml search_params s = Inr s)
   \<and> (\<forall>c s. \<exists>s'. delete_features example_world example_iml c s = (None, s')
          \<and> s' = filter (\<lambda>f. fid f \<notin> set c) s)
   \<and> files example_world ''missing.geojson'' = None
   \<and> outcome (upload_geo_data example_world ''missing.geojson'' ''here.credentials'' True
        example_layer) = Raised (file_not_found ''missing.geojson'')
   \<and> remote (upload_geo_data example_world ''missing.geojson'' ''here.credentials'' True
        example_layer) = []
   \<and> write_calls (trace (upload_geo_data example_world ''missing.geojson''
        ''here.credentials'' True example_layer)) = []
   \<and> concat (delete_calls (trace (upload_geo_data example_world ''missing.geojson''
        ''here.credentials'' True example_layer))) = [''6001'', ''6002'']
   \<and> delete_calls (from_open (trace (upload_geo_data example_world ''missing.geojson''
        ''here.credentials'' True example_layer))) = []"
proof -
  have h1: "get_here_iml example_world ''here.credentials'' example_layer =
     Run (Returned example_iml) (found_trace ''here.credentials'') example_layer"
    by (rule example_resolves)
  have h2: "\<forall>s. search_features example_world example_iml search_params s = Inr s"
    by (simp add: example_world_def layer_search_def)
  have h3: "\<forall>c s. \<exists>s'. delete_features example_world example_iml c s = (None, s')
          \<and> s' = filter (\<lambda>f. fid f \<notin> set c) s"
    by (simp add: example_world_def layer_delete_def)
  have h4: "files example_world ''missing.geojson'' = None"
    by (simp add: example_world_def example_files_def)
  have ids: "map fid example_layer = [''6001'', ''6002'']"
    by (simp add: example_layer_def)
  note inst = C10_deletes_before_file [of example_world "''missing.geojson''" "''here.credentials''"
      example_layer "\<lambda>s. s"]
  from inst have first: "delete_calls (from_open (trace (upload_geo_data example_world
        ''missing.geojson'' ''here.credentials'' True example_layer))) = []"
    by (rule conjunct1)
  from inst h1 h2 h3 h4 have
    "outcome (upload_geo_data example_world ''missing.geojson'' ''here.credentials'' True
        example_layer) = Raised (file_not_found ''missing.geojson'')
     \<and> remote (upload_geo_data example_world ''missing.geojson'' ''here.credentials'' True
        example_layer) = []
     \<and> write_calls (trace (upload_geo_data example_world ''missing.geojson''
        ''here.credentials'' True example_layer)) = []
     \<and> concat (delete_calls (trace (upload_geo_data example_world ''missing.geojson''
        ''here.credentials'' True example_layer))) = map fid example_layer"
    by blast
  with first h1 h2 h3 h4 ids show ?thesis by (simp only:) blast
qed

subsection \<open>The upload\<close>

text \<open>
  C8. When the file holds a collection of exactly three features, the resolver returns
  a handle and, with \<open>refresh\<close>, the purge completes, \<^verbatim>\<open>upload_geo_data\<close> calls
  \<^verbatim>\<open>write_features\<close> exactly once: on the handle the resolver returned, on the state
  \<open>r1\<close> the platform is in after the resolver and the purge, and with the collection as
  parsed (the three features, in the order and with the identifiers of the file). The
  run has that one write event and no other, it records what the call raised, the
  outcome of the run is the outcome of the call, and the state the run leaves is the
  state the call leaves.
\<close>

theorem C8_three_features_written_once:
  assumes present: "files w gp = Some body"
    and parsed: "geojson_load w body =
                   Inr (feature_collection [feature_json a, feature_json b, feature_json c])"
    and resolved: "get_here_iml w cp r = Run (Returned iml) t0 r0"
    and purged: "refresh \<longrightarrow> outcome (refresh_layer w iml r0) = Returned ()"
    and before: "r1 = (if refresh then remote (refresh_layer w iml r0) else r0)"
    and written: "write_features w iml
                    (feature_collection [feature_json a, feature_json b, feature_json c]) r1
                  = (res, r2)"
  shows "filter is_write (trace (upload_geo_data w gp cp refresh r)) =
           [Write iml (feature_collection [feature_json a, feature_json b, feature_json c]) res]
         \<and> write_calls (trace (upload_geo_data w gp cp refresh r)) =
           [feature_collection [feature_json a, feature_json b, feature_json c]]
         \<and> from_open (trace (upload_geo_data w gp cp refresh r)) =
           [OpenFile gp, Load, Print (msg_uploading gp),
            Write iml (feature_collection [feature_json a, feature_json b, feature_json c]) res]
         \<and> outcome (upload_geo_data w gp cp refresh r) =
           (case res of None \<Rightarrow> Returned () | Some error \<Rightarrow> Raised error)
         \<and> remote (upload_geo_data w gp cp refresh r) = r2"
proof -
  from upload_geo_data_resolved [OF resolved purged before, of gp]
  obtain pre where pre: "\<forall>e \<in> set pre. \<not> is_open e" "filter is_write pre = []"
    "write_calls pre = []"
    and run: "upload_geo_data w gp cp refresh r =
               Run (outcome (upload_file w iml gp r1)) (pre @ trace (upload_file w iml gp r1))
                 (remote (upload_file w iml gp r1))"
    by (elim exE conjE)
  note phase = upload_file_truthy [OF present parsed truthy_feature_collection written]
  show ?thesis
    by (simp add: run phase pre(2,3) from_open_quiet(1) [OF pre(1)] from_open_at_open)
qed

theorem C8_three_features_written_once_witness:
  "files example_world ''rides.geojson'' = Some three_rides_text
   \<and> geojson_load example_world three_rides_text =
        Inr (feature_collection [feature_json ride_a, feature_json ride_b, feature_json ride_c])
   \<and> get_here_iml example_world ''here.credentials'' example_layer =
        Run (Returned example_iml) (found_trace ''here.credentials'') example_layer
   \<and> write_features example_world example_iml
        (feature_collection [feature_json ride_a, feature_json ride_b, feature_json ride_c])
        example_layer = (None, example_layer @ [ride_a, ride_b, ride_c])
   \<and> filter is_write (trace (upload_geo_data example_world ''rides.geojson''
        ''here.credentials'' False example_layer)) =
        [Write example_iml
           (feature_collection [feature_json ride_a, feature_json ride_b, feature_json ride_c])
           None]
   \<and> outcome (upload_geo_data example_world ''rides.geojson'' ''here.credentials'' False
        example_layer) = Returned ()
   \<and> remote (upload_geo_data example_world ''rides.geojson'' ''here.credentials'' False
        example_layer) = example_layer @ [ride_a, ride_b, ride_c]
   \<and> outcome (refresh_layer read_only_world example_iml example_layer) = Returned ()
   \<and> remote (refresh_layer read_only_world example_iml example_layer) = []
   \<and> write_features read_only_world example_iml
        (feature_collection [feature_json ride_a, feature_json ride_b, feature_json ride_c])
        [] = (Some forbidden, [])
   \<and> filter is_write (trace (upload_geo_data read_only_world ''rides.geojson''
        ''here.credentials'' True example_layer)) =
        [Write example_iml
           (feature_collection [feature_json ride_a, feature_json ride_b, feature_json ride_c])
           (Some forbidden)]
   \<and> outcome (upload_geo_data read_only_world ''rides.geojson'' ''here.credentials'' True
        example_layer) = Raised forbidden
   \<and> remote (upload_geo_data read_only_world ''rides.geojson'' ''here.credentials'' True
        example_layer) = []"
proof -
  have f1: "files example_world ''rides.geojson'' = Some three_rides_text"
    by (simp add: example_world_def example_files_def)
  have p1: "geojson_load example_world three_rides_text =
        Inr (feature_collection [feature_json ride_a, feature_json ride_b, feature_json ride_c])"
    by (simp add: example_world_def example_load_def)
  have g1: "get_here_iml example_world ''here.credentials'' example_layer =
        Run (Returned example_iml) (found_trace ''here.credentials'') example_layer"
    by (rule example_resolves)
  have w1: "write_features example_world example_iml
        (feature_collection [feature_json ride_a, feature_json ride_b, feature_json ride_c])
        example_layer = (None, example_layer @ [ride_a, ride_b, ride_c])"
    by (rule example_write_three_rides)
  have np: "False \<longrightarrow> outcome (refresh_layer example_world example_iml example_layer)
              = Returned ()"
    by simp
  have b1: "example_layer =
              (if False then remote (refresh_layer example_world example_iml example_layer)
               else example_layer)"
    by simp
  have f2: "files read_only_world ''rides.geojson'' = Some three_rides_text"
    by (simp add: read_only_world_def example_world_def example_files_def)
  have p2: "geojson_load read_only_world three_rides_text =
        Inr (feature_collection [feature_json ride_a, feature_json ride_b, feature_json ride_c])"
    by (simp add: read_only_world_def example_world_def example_load_def)
  have g2: "get_here_iml read_only_world ''here.credentials'' example_layer =
        Run (Returned example_iml) (found_trace ''here.credentials'') example_layer"
    by (rule read_only_resolves)
  have po: "outcome (refresh_layer read_only_world example_iml example_layer) = Returned ()"
    by (simp add: read_only_purge)
  have pr: "remote (refresh_layer read_only_world example_iml example_layer) = []"
    by (simp add: read_only_purge)
  have yp: "True \<longrightarrow> outcome (refresh_layer read_only_world example_iml example_layer)
              = Returned ()"
    by (simp add: po)
  have b2: "[] = (if True then remote (refresh_layer read_only_world example_iml example_layer)
               else example_layer)"
    by (simp add: pr)
  have w2: "write_features read_only_world example_iml
        (feature_collection [feature_json ride_a, feature_json ride_b, feature_json ride_c])
        [] = (Some forbidden, [])"
    by (simp add: read_only_world_def example_world_def)
  note one = C8_three_features_written_once [OF f1 p1 g1 np b1 w1]
  note two = C8_three_features_written_once [OF f2 p2 g2 yp b2 w2]
  have a1: "filter is_write (trace (upload_geo_data example_world ''rides.geojson''
        ''here.credentials'' False example_layer)) =
        [Write example_iml
           (feature_collection [feature_json ride_a, feature_json ride_b, feature_json ride_c])
           None]"
    using one by (elim conjE)
  have a2: "outcome (upload_geo_data example_world ''rides.geojson'' ''here.credentials'' False
        example_layer) = Returned ()"
    using one by simp
  have a3: "remote (upload_geo_data example_world ''rides.geojson'' ''here.credentials'' False
        example_layer) = example_layer @ [ride_a, ride_b, ride_c]"
    using one by (elim conjE)
  have c1: "filter is_write (trace (upload_geo_data read_only_world ''rides.geojson''
        ''here.credentials'' True example_layer)) =
        [Write example_iml
           (feature_collection [feature_json ride_a, feature_json ride_b, feature_json ride_c])
           (Some forbidden)]"
    using two by (elim conjE)
  have c2: "outcome (upload_geo_data read_only_world ''rides.geojson'' ''here.credentials'' True
        example_layer) = Raised forbidden"
    using two by simp
  have c3: "remote (upload_geo_data read_only_world ''rides.geojson'' ''here.credentials'' True
        example_layer) = []"
    using two by (elim conjE)
  from f1 p1 g1 w1 a1 a2 a3 po pr w2 c1 c2 c3 show ?thesis by (intro conjI)
qed

text \<open>
  C2, as amended. The guard of line 128 tests the truth value of the parsed object,
  not the number of its features. When the resolver returns a handle, the purge (with
  \<open>refresh\<close>) completes and the file parses: if the parsed value is truthy,
  \<^verbatim>\<open>upload_geo_data\<close> calls \<^verbatim>\<open>write_features\<close> exactly once, on the resolved handle and
  with the whole parsed value, and the outcome and final state of the run are those of
  the call; if it is falsy (\<^verbatim>\<open>{}\<close>, \<^verbatim>\<open>[]\<close>, \<^verbatim>\<open>null\<close>, ...), no write call is made, the
  run returns and the state is as the purge left it. Every feature collection is a
  non-empty dictionary, hence truthy: a collection is written once whether or not it
  has features.
\<close>

theorem C2_write_when_truthy:
  assumes present: "files w gp = Some body"
    and parsed: "geojson_load w body = Inr geo_data"
    and resolved: "get_here_iml w cp r = Run (Returned iml) t0 r0"
    and purged: "refresh \<longrightarrow> outcome (refresh_layer w iml r0) = Returned ()"
    and before: "r1 = (if refresh then remote (refresh_layer w iml r0) else r0)"
    and written: "write_features w iml geo_data r1 = (res, r2)"
  shows "(truthy geo_data \<longrightarrow>
            filter is_write (trace (upload_geo_data w gp cp refresh r)) = [Write iml geo_data res]
            \<and> from_open (trace (upload_geo_data w gp cp refresh r)) =
                [OpenFile gp, Load, Print (msg_uploading gp), Write iml geo_data res]
            \<and> outcome (upload_geo_data w gp cp refresh r) =
                (case res of None \<Rightarrow> Returned () | Some error \<Rightarrow> Raised error)
            \<and> remote (upload_geo_data w gp cp refresh r) = r2)
         \<and> (\<not> truthy geo_data \<longrightarrow>
            filter is_write (trace (upload_geo_data w gp cp refresh r)) = []
            \<and> from_open (trace (upload_geo_data w gp cp refresh r)) = [OpenFile gp, Load]
            \<and> outcome (upload_geo_data w gp cp refresh r) = Returned ()
            \<and> remote (upload_geo_data w gp cp refresh r) = r1)
         \<and> (\<forall>features. geo_data = feature_collection features \<longrightarrow> truthy geo_data)"
proof -
  from upload_geo_data_resolved [OF resolved purged before, of gp]
  obtain pre where pre: "\<forall>e \<in> set pre. \<not> is_open e" "filter is_write pre = []"
    and run: "upload_geo_data w gp cp refresh r =
               Run (outcome (upload_file w iml gp r1)) (pre @ trace (upload_file w iml gp r1))
                 (remote (upload_file w iml gp r1))"
    by (elim exE conjE)
  show ?thesis
  proof (cases "truthy geo_data")
    case True
    note phase = upload_file_truthy [OF present parsed True written]
    show ?thesis
      by (simp add: run phase pre(2) from_open_quiet(1) [OF pre(1)] from_open_at_open True
          truthy_feature_collection)
  next
    case False
    note phase = upload_file_falsy [OF present parsed False]
    show ?thesis
      by (simp add: run phase pre(2) from_open_quiet(1) [OF pre(1)] from_open_at_open False
          truthy_feature_collection)
  qed
qed

theorem C2_write_when_truthy_witness:
  "files example_world ''rides.geojson'' = Some three_rides_text
   \<and> geojson_load example_world three_rides_text =
        Inr (feature_collection [feature_json ride_a, feature_json ride_b, feature_json ride_c])
   \<and> get_here_iml example_world ''here.credentials'' example_layer =
        Run (Returned example_iml) (found_trace ''here.credentials'') example_layer
   \<and> refresh_layer example_world example_iml example_layer =
        Run (Returned ())
          [Search example_iml search_params, Print msg_deleting,
           Delete example_iml [''6001'', ''6002''] None] []
   \<and> write_features example_world example_iml
        (feature_collection [feature_json ride_a, feature_json ride_b, feature_json ride_c]) []
        = (None, [ride_a, ride_b, ride_c])
   \<and> truthy (feature_collection [feature_json ride_a, feature_json ride_b, feature_json ride_c])
   \<and> filter is_write (trace (upload_geo_data example_world ''rides.geojson''
        ''here.credentials'' True example_layer)) =
        [Write example_iml
           (feature_collection [feature_json ride_a, feature_json ride_b, feature_json ride_c])
           None]
   \<and> outcome (upload_geo_data example_world ''rides.geojson'' ''here.credentials'' True
        example_layer) = Returned ()
   \<and> remote (upload_geo_data example_world ''rides.geojson'' ''here.credentials'' True
        example_layer) = [ride_a, ride_b, ride_c]
   \<and> files example_world ''object.geojson'' = Some ''{}''
   \<and> geojson_load example_world ''{}'' = Inr (PDict [])
   \<and> \<not> truthy (PDict [])
   \<and> filter is_write (trace (upload_geo_data example_world ''object.geojson''
        ''here.credentials'' True example_layer)) = []
   \<and> outcome (upload_geo_data example_world ''object.geojson'' ''here.credentials'' True
        example_layer) = Returned ()
   \<and> remote (upload_geo_data example_world ''object.geojson'' ''here.credentials'' True
        example_layer) = []"
proof -
  have f1: "files example_world ''rides.geojson'' = Some three_rides_text"
    by (simp add: example_world_def example_files_def)
  have p1: "geojson_load example_world three_rides_text =
        Inr (feature_collection [feature_json ride_a, feature_json ride_b, feature_json ride_c])"
    by (simp add: example_world_def example_load_def)
  have g: "get_here_iml example_world ''here.credentials'' example_layer =
        Run (Returned example_iml) (found_trace ''here.credentials'') example_layer"
    by (rule example_resolves)
  have pg: "refresh_layer example_world example_iml example_layer =
        Run (Returned ())
          [Search example_iml search_params, Print msg_deleting,
           Delete example_iml [''6001'', ''6002''] None] []"
    by (rule example_purge)
  have purged: "True \<longrightarrow> outcome (refresh_layer example_world example_iml example_layer) = Returned ()"
    by (simp add: pg)
  have b: "[] = (if True then remote (refresh_layer example_world example_iml example_layer)
             else example_layer)"
    by (simp add: pg)
  have w1: "write_features example_world example_iml
        (feature_collection [feature_json ride_a, feature_json ride_b, feature_json ride_c]) []
        = (None, [ride_a, ride_b, ride_c])"
    using example_write_three_rides [of example_iml "[]"] by simp
  have t1: "truthy (feature_collection [feature_json ride_a, feature_json ride_b,
        feature_json ride_c])"
    by (simp add: feature_collection_def)
  have f2: "files example_world ''object.geojson'' = Some ''{}''"
    by (simp add: example_world_def example_files_def)
  have p2: "geojson_load example_world ''{}'' = Inr (PDict [])"
    by (simp add: world_defs)
  have t2: "\<not> truthy (PDict [])" by simp
  have w2: "write_features example_world example_iml (PDict []) [] = (None, [])"
    by (simp add: example_world_def layer_write_def)
  note one = C2_write_when_truthy [OF f1 p1 g purged b w1]
  note two = C2_write_when_truthy [OF f2 p2 g purged b w2]
  from one t1 have a:
    "filter is_write (trace (upload_geo_data example_world ''rides.geojson''
        ''here.credentials'' True example_layer)) =
        [Write example_iml
           (feature_collection [feature_json ride_a, feature_json ride_b, feature_json ride_c])
           None]
     \<and> outcome (upload_geo_data example_world ''rides.geojson'' ''here.credentials'' True
        example_layer) = Returned ()
     \<and> remote (upload_geo_data example_world ''rides.geojson'' ''here.credentials'' True
        example_layer) = [ride_a, ride_b, ride_c]"
    by simp
  from two t2 have c:
    "filter is_write (trace (upload_geo_data example_world ''object.geojson''
        ''here.credentials'' True example_layer)) = []
     \<and> outcome (upload_geo_data example_world ''object.geojson'' ''here.credentials'' True
        example_layer) = Returned ()
     \<and> remote (upload_geo_data example_world ''object.geojson'' ''here.credentials'' True
        example_layer) = []"
    by simp
  from f1 p1 g pg w1 t1 a f2 p2 t2 c show ?thesis by (intro conjI) (elim conjE, assumption)+
qed

text \<open>
  The claim as it was stated fails on a file that holds the empty feature collection:
  the write call is made, with that collection.
\<close>

theorem C2_empty_collection_is_written:
  "files example_world ''no_rides.geojson'' = Some no_rides_text
   \<and> geojson_load example_world no_rides_text = Inr (feature_collection [])
   \<and> filter is_write (trace (upload_geo_data example_world ''no_rides.geojson''
        ''here.credentials'' False example_layer)) =
        [Write example_iml (feature_collection []) None]
   \<and> write_calls (trace (upload_geo_data example_world ''no_rides.geojson''
        ''here.credentials'' False example_layer)) = [feature_collection []]"
  by (simp add: world_defs run_defs feature_collection_def found_trace_def)

text \<open>
  C3, as amended. For a run that gets as far as opening the file: when no file is at
  the path, \<^verbatim>\<open>open\<close> raises \<^verbatim>\<open>FileNotFoundError\<close>, which leaves \<^verbatim>\<open>upload_geo_data\<close>, and
  nothing happens after the attempt to open (no message, no write); when the file is
  there and \<^verbatim>\<open>geojson.load\<close> raises on its text, that exception leaves the function
  in the same way; the write is skipped with no error and no message only when the
  file is there and its parsed content is falsy.
\<close>

theorem C3_file_phase_outcomes:
  assumes reached: "OpenFile gp \<in> set (trace (upload_geo_data w gp cp refresh r))"
  shows "(files w gp = None \<longrightarrow>
            outcome (upload_geo_data w gp cp refresh r) = Raised (file_not_found gp)
            \<and> from_open (trace (upload_geo_data w gp cp refresh r)) = [OpenFile gp])
         \<and> (\<forall>text e. files w gp = Some text \<and> geojson_load w text = Inl e \<longrightarrow>
            outcome (upload_geo_data w gp cp refresh r) = Raised e
            \<and> from_open (trace (upload_geo_data w gp cp refresh r)) = [OpenFile gp, Load])
         \<and> (\<forall>text geo_data.
              files w gp = Some text \<and> geojson_load w text = Inr geo_data
              \<and> \<not> truthy geo_data \<longrightarrow>
            outcome (upload_geo_data w gp cp refresh r) = Returned ()
            \<and> from_open (trace (upload_geo_data w gp cp refresh r)) = [OpenFile gp, Load])"
proof (cases rule: upload_geo_data_cases [of w gp cp refresh r])
  case stopped
  with reached show ?thesis by force
next
  case (reached iml pre r1)
  have fo: "from_open (trace (upload_geo_data w gp cp refresh r)) = trace (upload_file w iml gp r1)"
    by (simp add: reached(3) from_open_quiet(1) [OF reached(1)] upload_file_from_open)
  have out: "outcome (upload_geo_data w gp cp refresh r) = outcome (upload_file w iml gp r1)"
    by (simp add: reached(3))
  show ?thesis
    unfolding fo out
    by (auto simp add: upload_file_None upload_file_Inl upload_file_Inr(2))
qed

theorem C3_file_phase_outcomes_witness:
  "OpenFile ''missing.geojson'' \<in> set (trace (upload_geo_data example_world
      ''missing.geojson'' ''here.credentials'' False example_layer))
   \<and> files example_world ''missing.geojson'' = None
   \<and> outcome (upload_geo_data example_world ''missing.geojson'' ''here.credentials'' False
        example_layer) = Raised (file_not_found ''missing.geojson'')
   \<and> from_open (trace (upload_geo_data example_world ''missing.geojson''
        ''here.credentials'' False example_layer)) = [OpenFile ''missing.geojson'']
   \<and> OpenFile ''empty.geojson'' \<in> set (trace (upload_geo_data example_world
      ''empty.geojson'' ''here.credentials'' False example_layer))
   \<and> files example_world ''empty.geojson'' = Some []
   \<and> geojson_load example_world [] =
        Inl (Exn ''JSONDecodeError'' ''Expecting value: line 1 column 1 (char 0)'')
   \<and> outcome (upload_geo_data example_world ''empty.geojson'' ''here.credentials'' False
        example_layer) =
        Raised (Exn ''JSONDecodeError'' ''Expecting value: line 1 column 1 (char 0)'')
   \<and> OpenFile ''object.geojson'' \<in> set (trace (upload_geo_data example_world
      ''object.geojson'' ''here.credentials'' False example_layer))
   \<and> files example_world ''object.geojson'' = Some ''{}''
   \<and> geojson_load example_world ''{}'' = Inr (PDict [])
   \<and> \<not> truthy (PDict [])
   \<and> outcome (upload_geo_data example_world ''object.geojson'' ''here.credentials'' False
        example_layer) = Returned ()
   \<and> from_open (trace (upload_geo_data example_world ''object.geojson''
        ''here.credentials'' False example_layer)) = [OpenFile ''object.geojson'', Load]"
proof -
  have r1: "OpenFile ''missing.geojson'' \<in> set (trace (upload_geo_data example_world
      ''missing.geojson'' ''here.credentials'' False example_layer))"
    by (simp add: upload_geo_data_def example_resolves upload_file_opens)
  have f1: "files example_world ''missing.geojson'' = None"
    by (simp add: example_world_def example_files_def)
  have r2: "OpenFile ''empty.geojson'' \<in> set (trace (upload_geo_data example_world
      ''empty.geojson'' ''here.credentials'' False example_layer))"
    by (simp add: upload_geo_data_def example_resolves upload_file_opens)
  have f2: "files example_world ''empty.geojson'' = Some []"
    by (simp add: example_world_def example_files_def)
  have l2: "geojson_load example_world [] =
        Inl (Exn ''JSONDecodeError'' ''Expecting value: line 1 column 1 (char 0)'')"
    by (simp add: world_defs)
  have r3: "OpenFile ''object.geojson'' \<in> set (trace (upload_geo_data example_world
      ''object.geojson'' ''here.credentials'' False example_layer))"
    by (simp add: upload_geo_data_def example_resolves upload_file_opens)
  have f3: "files example_world ''object.geojson'' = Some ''{}''"
    by (simp add: example_world_def example_files_def)
  have l3: "geojson_load example_world ''{}'' = Inr (PDict [])"
    by (simp add: world_defs)
  have t3: "\<not> truthy (PDict [])" by simp
  from C3_file_phase_outcomes [OF r1] f1 have a:
    "outcome (upload_geo_data example_world ''missing.geojson'' ''here.credentials'' False
        example_layer) = Raised (file_not_found ''missing.geojson'')
     \<and> from_open (trace (upload_geo_data example_world ''missing.geojson''
        ''here.credentials'' False example_layer)) = [OpenFile ''missing.geojson'']"
    by blast
  from C3_file_phase_outcomes [OF r2] f2 l2 have b:
    "outcome (upload_geo_data example_world ''empty.geojson'' ''here.credentials'' False
        example_layer) =
        Raised (Exn ''JSONDecodeError'' ''Expecting value: line 1 column 1 (char 0)'')"
    by blast
  from C3_file_phase_outcomes [OF r3] f3 l3 t3 have c:
    "outcome (upload_geo_data example_world ''object.geojson'' ''here.credentials'' False
        example_layer) = Returned ()
     \<and> from_open (trace (upload_geo_data example_world ''object.geojson''
        ''here.credentials'' False example_layer)) = [OpenFile ''object.geojson'', Load]"
    by blast
  from a b c r1 f1 r2 f2 l2 r3 f3 l3 t3 show ?thesis by blast
qed

text \<open>
  The claim as it was stated fails on a path with no file: the call raises.
\<close>

theorem C3_absent_file_raises:
  "files example_world ''missing.geojson'' = None
   \<and> outcome (upload_geo_data example_world ''missing.geojson'' ''here.credentials'' False
        example_layer) = Raised (file_not_found ''missing.geojson'')"
  by (simp add: world_defs run_defs)

end
